theory Spec2Isabelle
  imports Complex_Main
begin

section \<open>Values, market data and block settings\<close>

text \<open>
  The program is JavaScript. Its numbers are modelled as real numbers: no rounding and no
  overflow. A division whose divisor is zero gives \<open>NaN\<close> or an infinity in the program,
  values the reals do not have; where such a division decides a branch the model writes
  the test on the divisor out, and a theorem about a quotient that is stored states that
  its divisor is not zero.

  A value that a condition reads may be missing or may not be a number at all, so the
  condition evaluator works on \<open>jsval\<close>: \<open>Undefined\<close>, \<open>NaN\<close> (what \<open>parseFloat\<close> gives for
  a text that is no numeral), a number, a text (the time stamp of a candle) or an object
  (the structured value of a MACD or Bollinger result).
\<close>

datatype jsval = Undefined | NaN | Num real | Str string | Obj

datatype priceField = Open | High | Low | Close | Volume

record candle =
  c_time :: string
  c_open :: real
  c_high :: real
  c_low :: real
  c_close :: real
  c_volume :: real

text \<open>
  \<open>candle[priceField]\<close> for the five numeric fields. The candle's time stamp is the
  ISO text of a date (\<open>toISOString\<close>).
\<close>

fun candleValue :: "candle \<Rightarrow> priceField \<Rightarrow> real" where
  "candleValue c Open = c_open c"
| "candleValue c High = c_high c"
| "candleValue c Low = c_low c"
| "candleValue c Close = c_close c"
| "candleValue c Volume = c_volume c"

text \<open>
  The per-symbol record of a market data snapshot. \<open>price\<close> and \<open>history\<close> may be absent
  (\<open>None\<close>); the code tests both for truthiness.
\<close>

record symbolData =
  md_price :: "real option"
  md_timestamp :: string
  md_history :: "candle list option"

text \<open>
  The snapshot is an object keyed by symbol. Its keys are kept in insertion order,
  because \<open>Object.keys(marketData)[0]\<close> is read; the keys of the list are distinct, and
  none is the text of an integer (such keys would come first, in numeric order).
\<close>

type_synonym marketData = "(string \<times> symbolData) list"

definition firstKey :: "marketData \<Rightarrow> string option" where
  "firstKey md = (case md of [] \<Rightarrow> None | (k, _) # _ \<Rightarrow> Some k)"

text \<open>
  The free-form settings mapping of a block. Every setting any helper reads is a field;
  \<open>None\<close> is an absent key. Numeric settings hold numbers (on a number \<open>parseFloat\<close> is
  the identity, and \<open>parseInt\<close> is the identity on an integer below \<open>10\<^sup>2\<^sup>1\<close> in
  magnitude, which is written without an exponent), periods are natural numbers, and a
  price field names one of the five numeric candle fields.
\<close>

record settings =
  st_symbol :: "string option"
  st_period :: "nat option"
  st_priceField :: "priceField option"
  st_fastPeriod :: "nat option"
  st_slowPeriod :: "nat option"
  st_signalPeriod :: "nat option"
  st_deviations :: "real option"
  st_overbought :: "real option"
  st_oversold :: "real option"
  st_direction :: "string option"
  st_source1Type :: "string option"
  st_source2Type :: "string option"
  st_source1 :: "string option"
  st_source2 :: "string option"
  st_sourceType :: "string option"
  st_source :: "string option"
  st_operator :: "string option"
  st_value :: "real option"
  st_patternType :: "string option"
  st_lookbackPeriod :: "nat option"
  st_orderType :: "string option"
  st_quantity :: "int option"
  st_price :: "real option"
  st_riskLevel :: "real option"
  st_percentage :: "real option"
  st_type :: "string option"
  st_trailingType :: "string option"
  st_trailingValue :: "real option"

definition noSettings :: settings where
  "noSettings = \<lparr> st_symbol = None, st_period = None, st_priceField = None,
     st_fastPeriod = None, st_slowPeriod = None, st_signalPeriod = None,
     st_deviations = None, st_overbought = None, st_oversold = None,
     st_direction = None, st_source1Type = None, st_source2Type = None,
     st_source1 = None, st_source2 = None, st_sourceType = None, st_source = None,
     st_operator = None, st_value = None, st_patternType = None,
     st_lookbackPeriod = None, st_orderType = None, st_quantity = None,
     st_price = None, st_riskLevel = None, st_percentage = None, st_type = None,
     st_trailingType = None, st_trailingValue = None \<rparr>"

text \<open>
  A block of a strategy: what is read under \<open>block.id\<close>, its \<open>type\<close>, \<open>subtype\<close> and
  settings. The identifier is absent on the blocks of a strategy that went through
  \<open>toObject\<close>, which keeps \<open>_id\<close> only.
\<close>

record block =
  b_id :: "string option"
  b_type :: string
  b_subtype :: string
  b_settings :: settings

text \<open>JavaScript's \<open>x || d\<close> on an optional number: absent and \<open>0\<close> are falsy.\<close>

definition orNat :: "nat option \<Rightarrow> nat \<Rightarrow> nat" where
  "orNat x d = (case x of None \<Rightarrow> d | Some n \<Rightarrow> if n = 0 then d else n)"

definition orReal :: "real option \<Rightarrow> real \<Rightarrow> real" where
  "orReal x d = (case x of None \<Rightarrow> d | Some r \<Rightarrow> if r = 0 then d else r)"

definition orField :: "priceField option \<Rightarrow> priceField \<Rightarrow> priceField" where
  "orField x d = (case x of None \<Rightarrow> d | Some f \<Rightarrow> f)"

text \<open>Everything the code throws, as a value.\<close>

datatype error =
    TypeError
  | NoHistoricalData "string option"
  | NotEnoughData string nat
  | NotEnoughDataMACD nat nat nat
  | NotEnoughDataBands nat real
  | UnknownIndicator string
  | UnknownCondition string
  | StrategyNotFound
  | StrategyNotAuthorized
  | SessionNotFound
  | NotAuthorized string

section \<open>Indicator helpers\<close>

text \<open>\<open>xs.slice(a, b)\<close> for indices that are not negative, and \<open>xs[xs.length - 1]\<close>.\<close>

definition slice :: "'a list \<Rightarrow> nat \<Rightarrow> nat \<Rightarrow> 'a list" where
  "slice xs a b = take (b - a) (drop a xs)"

definition lastValue :: "'a list \<Rightarrow> 'a option" where
  "lastValue xs = (if xs = [] then None else Some (last xs))"

record scalarResult =
  sr_value :: "real option"
  sr_history :: "real list"
  sr_period :: nat
  sr_timestamp :: string
  sr_overbought :: "real option"
  sr_oversold :: "real option"

text \<open>
  \<open>calculateSMA\<close>. The loop runs \<open>i\<close> from \<open>period - 1\<close> to the last index and pushes the mean
  of \<open>prices.slice(i - period + 1, i + 1)\<close>, summed from the left starting at \<open>0\<close>.
\<close>

definition calculateSMA :: "symbolData \<Rightarrow> settings \<Rightarrow> error + scalarResult" where
  "calculateSMA priceData settings =
     (let period = orNat (st_period settings) 14;
          priceField = orField (st_priceField settings) Close
      in case md_history priceData of
           None \<Rightarrow> Inl TypeError
         | Some hist \<Rightarrow>
             (let prices = map (\<lambda>c. candleValue c priceField) hist
              in if length prices < period then Inl (NotEnoughData ''SMA'' period)
                 else
                   (let smaValues =
                          map (\<lambda>i. foldl (+) 0 (slice prices (i + 1 - period) (i + 1)) / real period)
                            [period - 1 ..< length prices]
                    in Inr \<lparr> sr_value = lastValue smaValues, sr_history = smaValues,
                             sr_period = period, sr_timestamp = md_timestamp priceData,
                             sr_overbought = None, sr_oversold = None \<rparr>)))"

text \<open>
  \<open>calculateEMA\<close>. The list starts with the mean of the first \<open>period\<close> prices; the loop
  runs over the prices from index \<open>period\<close> on and pushes
  \<open>(price - previous) * multiplier + previous\<close>.
\<close>

fun emaLoop :: "real \<Rightarrow> real \<Rightarrow> real list \<Rightarrow> real list" where
  "emaLoop multiplier previous [] = []"
| "emaLoop multiplier previous (price # rest) =
     (let ema = (price - previous) * multiplier + previous
      in ema # emaLoop multiplier ema rest)"

definition calculateEMA :: "symbolData \<Rightarrow> settings \<Rightarrow> error + scalarResult" where
  "calculateEMA priceData settings =
     (let period = orNat (st_period settings) 12;
          priceField = orField (st_priceField settings) Close
      in case md_history priceData of
           None \<Rightarrow> Inl TypeError
         | Some hist \<Rightarrow>
             (let prices = map (\<lambda>c. candleValue c priceField) hist
              in if length prices < period then Inl (NotEnoughData ''EMA'' period)
                 else
                   (let multiplier = 2 / (real period + 1);
                        initialSMA = foldl (+) 0 (slice prices 0 period) / real period;
                        emaValues = initialSMA # emaLoop multiplier initialSMA (drop period prices)
                    in Inr \<lparr> sr_value = lastValue emaValues, sr_history = emaValues,
                             sr_period = period, sr_timestamp = md_timestamp priceData,
                             sr_overbought = None, sr_oversold = None \<rparr>)))"

text \<open>
  \<open>calculateRSI\<close>. \<open>rsiOf\<close> is the two lines that turn the averages into an index value;
  the loop smooths the averages with the gains and losses from index \<open>period\<close> on.
\<close>

definition rsiOf :: "real \<Rightarrow> real \<Rightarrow> real" where
  "rsiOf avgGain avgLoss =
     (let rs = avgGain / (if avgLoss = 0 then 0.001 else avgLoss)
      in 100 - 100 / (1 + rs))"

fun rsiLoop :: "nat \<Rightarrow> real \<Rightarrow> real \<Rightarrow> (real \<times> real) list \<Rightarrow> real list" where
  "rsiLoop period avgGain avgLoss [] = []"
| "rsiLoop period avgGain avgLoss ((gain, loss) # rest) =
     (let avgGain' = (avgGain * (real period - 1) + gain) / real period;
          avgLoss' = (avgLoss * (real period - 1) + loss) / real period
      in rsiOf avgGain' avgLoss' # rsiLoop period avgGain' avgLoss' rest)"

definition calculateRSI :: "symbolData \<Rightarrow> settings \<Rightarrow> error + scalarResult" where
  "calculateRSI priceData settings =
     (let period = orNat (st_period settings) 14;
          priceField = orField (st_priceField settings) Close
      in case md_history priceData of
           None \<Rightarrow> Inl TypeError
         | Some hist \<Rightarrow>
             (let prices = map (\<lambda>c. candleValue c priceField) hist
              in if length prices < period + 1 then Inl (NotEnoughData ''RSI'' period)
                 else
                   (let changes = map (\<lambda>i. prices ! i - prices ! (i - 1)) [1 ..< length prices];
                        gains = map (\<lambda>change. if change > 0 then change else 0) changes;
                        losses = map (\<lambda>change. if change < 0 then \<bar>change\<bar> else 0) changes;
                        avgGain = foldl (+) 0 (slice gains 0 period) / real period;
                        avgLoss = foldl (+) 0 (slice losses 0 period) / real period;
                        rsiValues = rsiOf avgGain avgLoss
                          # rsiLoop period avgGain avgLoss (zip (drop period gains) (drop period losses))
                    in Inr \<lparr> sr_value = lastValue rsiValues, sr_history = rsiValues,
                             sr_period = period, sr_timestamp = md_timestamp priceData,
                             sr_overbought = Some (orReal (st_overbought settings) 70),
                             sr_oversold = Some (orReal (st_oversold settings) 30) \<rparr>)))"

text \<open>
  \<open>calculateMACD\<close>. Both averages are computed by \<open>calculateEMA\<close>, whose errors propagate;
  the lines are subtracted index by index over the shorter length.
\<close>

record macdValue =
  mv_macd :: "real option"
  mv_signal :: "real option"
  mv_histogram :: "real option"

record macdHistory =
  mh_macd :: "real list"
  mh_signal :: "real list"
  mh_histogram :: "real list"

record macdResult =
  mr_value :: macdValue
  mr_history :: macdHistory
  mr_fastPeriod :: nat
  mr_slowPeriod :: nat
  mr_signalPeriod :: nat
  mr_timestamp :: string

definition calculateMACD :: "symbolData \<Rightarrow> settings \<Rightarrow> error + macdResult" where
  "calculateMACD priceData settings =
     (let fastPeriod = orNat (st_fastPeriod settings) 12;
          slowPeriod = orNat (st_slowPeriod settings) 26;
          signalPeriod = orNat (st_signalPeriod settings) 9;
          priceField = orField (st_priceField settings) Close
      in case md_history priceData of
           None \<Rightarrow> Inl TypeError
         | Some hist \<Rightarrow>
             if length hist < slowPeriod + signalPeriod
             then Inl (NotEnoughDataMACD fastPeriod slowPeriod signalPeriod)
             else
               (case calculateEMA priceData
                       (noSettings\<lparr>st_period := Some fastPeriod, st_priceField := Some priceField\<rparr>) of
                  Inl e \<Rightarrow> Inl e
                | Inr fastEMA \<Rightarrow>
                   (case calculateEMA priceData
                           (noSettings\<lparr>st_period := Some slowPeriod, st_priceField := Some priceField\<rparr>) of
                      Inl e \<Rightarrow> Inl e
                    | Inr slowEMA \<Rightarrow>
                       (let macdLine = map (\<lambda>(f, s). f - s) (zip (sr_history fastEMA) (sr_history slowEMA));
                            signalLine =
                              (if signalPeriod \<le> length macdLine
                               then (let initialSMA =
                                           foldl (+) 0 (slice macdLine 0 signalPeriod) / real signalPeriod;
                                         multiplier = 2 / (real signalPeriod + 1)
                                     in initialSMA # emaLoop multiplier initialSMA (drop signalPeriod macdLine))
                               else []);
                            histogram = map (\<lambda>(m, s). m - s) (zip macdLine signalLine)
                        in Inr \<lparr> mr_value = \<lparr> mv_macd = lastValue macdLine,
                                                mv_signal = lastValue signalLine,
                                                mv_histogram = lastValue histogram \<rparr>,
                                 mr_history = \<lparr> mh_macd = macdLine, mh_signal = signalLine,
                                                  mh_histogram = histogram \<rparr>,
                                 mr_fastPeriod = fastPeriod, mr_slowPeriod = slowPeriod,
                                 mr_signalPeriod = signalPeriod,
                                 mr_timestamp = md_timestamp priceData \<rparr>))))"

text \<open>
  \<open>calculateBollingerBands\<close>. The middle band is \<open>calculateSMA\<close>; each window's mean is read
  from that result at index \<open>i - (period - 1)\<close>, which is within it.
\<close>

record bandsValue =
  bv_middle :: "real option"
  bv_upper :: "real option"
  bv_lower :: "real option"

record bandsHistory =
  bh_middle :: "real list"
  bh_upper :: "real list"
  bh_lower :: "real list"

record bandsResult =
  br_value :: bandsValue
  br_history :: bandsHistory
  br_period :: nat
  br_deviations :: real
  br_timestamp :: string

definition calculateBollingerBands :: "symbolData \<Rightarrow> settings \<Rightarrow> error + bandsResult" where
  "calculateBollingerBands priceData settings =
     (let period = orNat (st_period settings) 20;
          deviations = orReal (st_deviations settings) 2;
          priceField = orField (st_priceField settings) Close
      in case md_history priceData of
           None \<Rightarrow> Inl TypeError
         | Some hist \<Rightarrow>
             (let prices = map (\<lambda>c. candleValue c priceField) hist
              in if length prices < period then Inl (NotEnoughDataBands period deviations)
                 else
                   (case calculateSMA priceData
                           (noSettings\<lparr>st_period := Some period, st_priceField := Some priceField\<rparr>) of
                      Inl e \<Rightarrow> Inl e
                    | Inr sma \<Rightarrow>
                       (let stdDevAt = (\<lambda>i.
                              let slice = slice prices (i + 1 - period) (i + 1);
                                  mean = sr_history sma ! (i - (period - 1));
                                  variance = foldl (\<lambda>sum price. sum + (price - mean)\<^sup>2) 0 slice / real period
                              in (mean, sqrt variance));
                            upperBand = map (\<lambda>i. let (mean, stdDev) = stdDevAt i in mean + deviations * stdDev)
                                          [period - 1 ..< length prices];
                            lowerBand = map (\<lambda>i. let (mean, stdDev) = stdDevAt i in mean - deviations * stdDev)
                                          [period - 1 ..< length prices]
                        in Inr \<lparr> br_value = \<lparr> bv_middle = sr_value sma,
                                                bv_upper = lastValue upperBand,
                                                bv_lower = lastValue lowerBand \<rparr>,
                                 br_history = \<lparr> bh_middle = sr_history sma, bh_upper = upperBand,
                                                  bh_lower = lowerBand \<rparr>,
                                 br_period = period, br_deviations = deviations,
                                 br_timestamp = md_timestamp priceData \<rparr>))))"

text \<open>
  \<open>applyIndicator\<close>: the symbol is \<open>settings.symbol\<close> or, when that is absent or empty, the
  first key of the market data; without data or without a history for it the call throws.
\<close>

datatype indicatorResult =
    Scalar scalarResult
  | Macd macdResult
  | Bands bandsResult

definition lookupSymbol :: "marketData \<Rightarrow> string option \<Rightarrow> symbolData option" where
  "lookupSymbol md symbol = (case symbol of None \<Rightarrow> map_of md ''undefined'' | Some k \<Rightarrow> map_of md k)"

definition mapResult :: "('a \<Rightarrow> 'b) \<Rightarrow> error + 'a \<Rightarrow> error + 'b" where
  "mapResult f r = (case r of Inl e \<Rightarrow> Inl e | Inr x \<Rightarrow> Inr (f x))"

definition applyIndicator :: "block \<Rightarrow> marketData \<Rightarrow> error + indicatorResult" where
  "applyIndicator block marketData =
     (let subtype = b_subtype block;
          settings = b_settings block;
          symbol = (case st_symbol settings of
                      None \<Rightarrow> firstKey marketData
                    | Some s \<Rightarrow> if s = [] then firstKey marketData else Some s)
      in case lookupSymbol marketData symbol of
           None \<Rightarrow> Inl (NoHistoricalData symbol)
         | Some priceData \<Rightarrow>
             if md_history priceData = None then Inl (NoHistoricalData symbol)
             else if subtype = ''sma'' then mapResult Scalar (calculateSMA priceData settings)
             else if subtype = ''ema'' then mapResult Scalar (calculateEMA priceData settings)
             else if subtype = ''rsi'' then mapResult Scalar (calculateRSI priceData settings)
             else if subtype = ''macd'' then mapResult Macd (calculateMACD priceData settings)
             else if subtype = ''bb'' then mapResult Bands (calculateBollingerBands priceData settings)
             else Inl (UnknownIndicator subtype))"

section \<open>Action helpers\<close>

text \<open>
  A signal is the object an action helper returns. A field a helper does not set is
  \<open>None\<close> (\<open>Undefined\<close> for \<open>value\<close>, which is \<open>NaN\<close> when a stop is set without one).
  \<open>new Date()\<close> is an argument: the clock reading of the call.
\<close>

type_synonym time = nat

record signal =
  sg_action :: string
  sg_symbol :: string
  sg_orderType :: "string option"
  sg_price :: "real option"
  sg_quantity :: "real option"
  sg_riskLevel :: "real option"
  sg_percentage :: "real option"
  sg_type :: "string option"
  sg_value :: jsval
  sg_trailingType :: "string option"
  sg_trailingValue :: "real option"
  sg_timestamp :: time

type_synonym indicators = "string \<Rightarrow> indicatorResult option"

text \<open>A destructuring default applies when the key is absent only.\<close>

definition defaultTo :: "'a option \<Rightarrow> 'a \<Rightarrow> 'a" where
  "defaultTo x d = (case x of None \<Rightarrow> d | Some v \<Rightarrow> v)"

text \<open>
  \<open>marketData[symbol]\<close> and its price, when both are truthy: every action helper returns
  \<open>null\<close> on \<open>!symbolData || !symbolData.price\<close>.
\<close>

definition marketPrice :: "marketData \<Rightarrow> string \<Rightarrow> real option" where
  "marketPrice marketData symbol =
     (case map_of marketData symbol of
        None \<Rightarrow> None
      | Some symbolData \<Rightarrow>
          (case md_price symbolData of
             None \<Rightarrow> None
           | Some p \<Rightarrow> if p = 0 then None else Some p))"

definition truthyInt :: "int option \<Rightarrow> bool" where
  "truthyInt x = (case x of None \<Rightarrow> False | Some q \<Rightarrow> q \<noteq> 0)"

definition truthyReal :: "real option \<Rightarrow> bool" where
  "truthyReal x = (case x of None \<Rightarrow> False | Some r \<Rightarrow> r \<noteq> 0)"

text \<open>\<open>q ? parseInt(q, 10) : undefined\<close> on an optional integer.\<close>

definition parsedQuantity :: "int option \<Rightarrow> real option" where
  "parsedQuantity x = (case x of None \<Rightarrow> None | Some q \<Rightarrow> if q = 0 then None else Some (of_int q))"

definition executeBuyOrder :: "time \<Rightarrow> settings \<Rightarrow> marketData \<Rightarrow> indicators \<Rightarrow> signal option" where
  "executeBuyOrder now settings marketData indicators =
     (let symbol = defaultTo (st_symbol settings) ''SPY'';
          orderType = defaultTo (st_orderType settings) ''market'';
          quantity = st_quantity settings;
          price = st_price settings;
          riskLevel = defaultTo (st_riskLevel settings) 0.02;
          executionPrice =
            (if \<not> truthyReal price \<or> orderType = ''market''
             then marketPrice marketData symbol
             else price)
      in case executionPrice of
           None \<Rightarrow> None
         | Some p \<Rightarrow>
             Some \<lparr> sg_action = ''buy'', sg_symbol = symbol, sg_orderType = Some orderType,
                    sg_price = Some p, sg_quantity = parsedQuantity quantity,
                    sg_riskLevel = Some riskLevel, sg_percentage = None, sg_type = None,
                    sg_value = Undefined, sg_trailingType = None, sg_trailingValue = None,
                    sg_timestamp = now \<rparr>)"

definition executeSellOrder :: "time \<Rightarrow> settings \<Rightarrow> marketData \<Rightarrow> indicators \<Rightarrow> signal option" where
  "executeSellOrder now settings marketData indicators =
     (let symbol = defaultTo (st_symbol settings) ''SPY'';
          orderType = defaultTo (st_orderType settings) ''market'';
          quantity = st_quantity settings;
          price = st_price settings;
          percentage = defaultTo (st_percentage settings) 100;
          executionPrice =
            (if \<not> truthyReal price \<or> orderType = ''market''
             then marketPrice marketData symbol
             else price);
          executionQuantity =
            (if \<not> truthyInt quantity \<and> percentage \<noteq> 0 then None else quantity)
      in case executionPrice of
           None \<Rightarrow> None
         | Some p \<Rightarrow>
             Some \<lparr> sg_action = ''sell'', sg_symbol = symbol, sg_orderType = Some orderType,
                    sg_price = Some p, sg_quantity = parsedQuantity executionQuantity,
                    sg_riskLevel = None, sg_percentage = Some (percentage / 100), sg_type = None,
                    sg_value = Undefined, sg_trailingType = None, sg_trailingValue = None,
                    sg_timestamp = now \<rparr>)"

text \<open>\<open>parseFloat(value)\<close> on an optional number: \<open>NaN\<close> when it is absent.\<close>

definition parsedValue :: "real option \<Rightarrow> jsval" where
  "parsedValue x = (case x of None \<Rightarrow> NaN | Some v \<Rightarrow> Num v)"

definition executeStopLoss :: "time \<Rightarrow> settings \<Rightarrow> marketData \<Rightarrow> indicators \<Rightarrow> signal option" where
  "executeStopLoss now settings marketData indicators =
     (let symbol = defaultTo (st_symbol settings) ''SPY'';
          type = defaultTo (st_type settings) ''price'';
          value = st_value settings;
          trailingType = defaultTo (st_trailingType settings) ''none'';
          trailingValue = defaultTo (st_trailingValue settings) 0
      in case marketPrice marketData symbol of
           None \<Rightarrow> None
         | Some currentPrice \<Rightarrow>
             Some \<lparr> sg_action = ''stop_loss'', sg_symbol = symbol, sg_orderType = None,
                    sg_price = Some currentPrice, sg_quantity = None, sg_riskLevel = None,
                    sg_percentage = None, sg_type = Some type, sg_value = parsedValue value,
                    sg_trailingType = Some trailingType, sg_trailingValue = Some trailingValue,
                    sg_timestamp = now \<rparr>)"

definition executeTakeProfit :: "time \<Rightarrow> settings \<Rightarrow> marketData \<Rightarrow> indicators \<Rightarrow> signal option" where
  "executeTakeProfit now settings marketData indicators =
     (let symbol = defaultTo (st_symbol settings) ''SPY'';
          type = defaultTo (st_type settings) ''price'';
          value = st_value settings
      in case marketPrice marketData symbol of
           None \<Rightarrow> None
         | Some currentPrice \<Rightarrow>
             Some \<lparr> sg_action = ''take_profit'', sg_symbol = symbol, sg_orderType = None,
                    sg_price = Some currentPrice, sg_quantity = None, sg_riskLevel = None,
                    sg_percentage = None, sg_type = Some type, sg_value = parsedValue value,
                    sg_trailingType = None, sg_trailingValue = None,
                    sg_timestamp = now \<rparr>)"

definition executeAction :: "time \<Rightarrow> block \<Rightarrow> marketData \<Rightarrow> indicators \<Rightarrow> signal option" where
  "executeAction now block marketData indicators =
     (let subtype = b_subtype block; settings = b_settings block
      in if subtype = ''buy'' then executeBuyOrder now settings marketData indicators
         else if subtype = ''sell'' then executeSellOrder now settings marketData indicators
         else if subtype = ''stop_loss'' then executeStopLoss now settings marketData indicators
         else if subtype = ''take_profit'' then executeTakeProfit now settings marketData indicators
         else None)"

section \<open>Condition helpers\<close>

text \<open>
  The relational operators on the values a condition reads. Two texts are compared as
  texts, unit by unit, a proper prefix being the smaller; an object counts as the text
  \<open>[object Object]\<close>. In every other case both sides are taken as numbers, where
  \<open>Undefined\<close>, \<open>NaN\<close>, an object and a time stamp (the text of a date is no numeral) are
  \<open>NaN\<close>, and a comparison with \<open>NaN\<close> is false. \<open>a \<le> b\<close> is computed as \<open>b < a\<close> being
  false and not undefined, and likewise \<open>a \<ge> b\<close>. The units of a text are its characters,
  all of them ASCII here.
\<close>

fun strLess :: "string \<Rightarrow> string \<Rightarrow> bool" where
  "strLess [] [] = False"
| "strLess [] (y # ys) = True"
| "strLess (x # xs) [] = False"
| "strLess (x # xs) (y # ys) =
     ((of_char x :: nat) < of_char y \<or> (x = y \<and> strLess xs ys))"

definition objectText :: string where
  "objectText = ''[object Object]''"

fun jlt :: "jsval \<Rightarrow> jsval \<Rightarrow> bool" where
  "jlt (Num a) (Num b) = (a < b)"
| "jlt (Str s) (Str t) = strLess s t"
| "jlt (Str s) Obj = strLess s objectText"
| "jlt Obj (Str t) = strLess objectText t"
| "jlt _ _ = False"

fun jgt :: "jsval \<Rightarrow> jsval \<Rightarrow> bool" where
  "jgt (Num a) (Num b) = (a > b)"
| "jgt (Str s) (Str t) = strLess t s"
| "jgt (Str s) Obj = strLess objectText s"
| "jgt Obj (Str t) = strLess t objectText"
| "jgt _ _ = False"

fun jle :: "jsval \<Rightarrow> jsval \<Rightarrow> bool" where
  "jle (Num a) (Num b) = (a \<le> b)"
| "jle (Str s) (Str t) = (\<not> strLess t s)"
| "jle (Str s) Obj = (\<not> strLess objectText s)"
| "jle Obj (Str t) = (\<not> strLess t objectText)"
| "jle Obj Obj = True"
| "jle _ _ = False"

fun jge :: "jsval \<Rightarrow> jsval \<Rightarrow> bool" where
  "jge (Num a) (Num b) = (a \<ge> b)"
| "jge (Str s) (Str t) = (\<not> strLess s t)"
| "jge (Str s) Obj = (\<not> strLess s objectText)"
| "jge Obj (Str t) = (\<not> strLess objectText t)"
| "jge Obj Obj = True"
| "jge _ _ = False"

text \<open>
  \<open>===\<close>. The right side is the threshold, a number or \<open>Undefined\<close>, so no two texts and
  no two objects are ever compared.
\<close>

fun jeq :: "jsval \<Rightarrow> jsval \<Rightarrow> bool" where
  "jeq (Num a) (Num b) = (a = b)"
| "jeq Undefined Undefined = True"
| "jeq _ _ = False"

text \<open>\<open>text.split(d)\<close>, \<open>indicator.value\<close> and \<open>candle[field]\<close> for a field given by name.\<close>

fun splitOn :: "char \<Rightarrow> string \<Rightarrow> string list" where
  "splitOn d [] = [[]]"
| "splitOn d (c # cs) =
     (if c = d then [] # splitOn d cs
      else (case splitOn d cs of [] \<Rightarrow> [[c]] | w # ws \<Rightarrow> (c # w) # ws))"

definition indicatorValue :: "indicatorResult \<Rightarrow> jsval" where
  "indicatorValue r =
     (case r of
        Scalar sr \<Rightarrow> (case sr_value sr of None \<Rightarrow> Undefined | Some v \<Rightarrow> Num v)
      | Macd _ \<Rightarrow> Obj
      | Bands _ \<Rightarrow> Obj)"

definition candleField :: "candle \<Rightarrow> string option \<Rightarrow> jsval" where
  "candleField c field =
     (if field = Some ''time'' then Str (c_time c)
      else if field = Some ''open'' then Num (c_open c)
      else if field = Some ''high'' then Num (c_high c)
      else if field = Some ''low'' then Num (c_low c)
      else if field = Some ''close'' then Num (c_close c)
      else if field = Some ''volume'' then Num (c_volume c)
      else Undefined)"

text \<open>A key that is \<open>undefined\<close> is the key \<open>"undefined"\<close>.\<close>

definition keyOf :: "string option \<Rightarrow> string" where
  "keyOf k = (case k of None \<Rightarrow> ''undefined'' | Some s \<Rightarrow> s)"

text \<open>
  \<open>getSourceValue\<close> and \<open>getPreviousSourceValue\<close>. \<open>parseFloat\<close> on a text belongs to the
  runtime and is an argument (\<open>None\<close> is \<open>NaN\<close>). A price source that is absent cannot be
  split: the call throws.
\<close>

definition getSourceValue ::
  "(string \<Rightarrow> real option) \<Rightarrow> string option \<Rightarrow> string option \<Rightarrow> marketData \<Rightarrow> indicators
     \<Rightarrow> error + jsval" where
  "getSourceValue parseFloat sourceType source marketData indicators =
     (if sourceType = Some ''indicator'' then
        Inr (case indicators (keyOf source) of None \<Rightarrow> Undefined | Some indicator \<Rightarrow> indicatorValue indicator)
      else if sourceType = Some ''price'' then
        (case source of
           None \<Rightarrow> Inl TypeError
         | Some text \<Rightarrow>
             (let parts = splitOn CHR ''.'' text;
                  symbol = hd parts;
                  field = (if length parts < 2 then None else Some (parts ! 1))
              in case map_of marketData symbol of
                   None \<Rightarrow> Inr Undefined
                 | Some symbolData \<Rightarrow>
                     (case md_history symbolData of
                        None \<Rightarrow> Inr Undefined
                      | Some history \<Rightarrow>
                          if length history = 0 then Inr Undefined
                          else Inr (candleField (history ! (length history - 1)) field))))
      else if sourceType = Some ''value'' then
        Inr (case source of None \<Rightarrow> NaN | Some text \<Rightarrow> parsedValue (parseFloat text))
      else Inr Undefined)"

definition getPreviousSourceValue ::
  "(string \<Rightarrow> real option) \<Rightarrow> string option \<Rightarrow> string option \<Rightarrow> marketData \<Rightarrow> indicators
     \<Rightarrow> error + jsval" where
  "getPreviousSourceValue parseFloat sourceType source marketData indicators =
     (if sourceType = Some ''indicator'' then
        Inr (case indicators (keyOf source) of
               None \<Rightarrow> Undefined
             | Some (Scalar sr) \<Rightarrow>
                 if length (sr_history sr) < 2 then Undefined
                 else Num (sr_history sr ! (length (sr_history sr) - 2))
             | Some indicator \<Rightarrow> indicatorValue indicator)
      else if sourceType = Some ''price'' then
        (case source of
           None \<Rightarrow> Inl TypeError
         | Some text \<Rightarrow>
             (let parts = splitOn CHR ''.'' text;
                  symbol = hd parts;
                  field = (if length parts < 2 then None else Some (parts ! 1))
              in case map_of marketData symbol of
                   None \<Rightarrow> Inr Undefined
                 | Some symbolData \<Rightarrow>
                     (case md_history symbolData of
                        None \<Rightarrow> Inr Undefined
                      | Some history \<Rightarrow>
                          if length history < 2 then Inr Undefined
                          else Inr (candleField (history ! (length history - 2)) field))))
      else if sourceType = Some ''value'' then
        Inr (case source of None \<Rightarrow> NaN | Some text \<Rightarrow> parsedValue (parseFloat text))
      else Inr Undefined)"

text \<open>Sequencing of calls that may throw.\<close>

definition andThen :: "error + 'a \<Rightarrow> ('a \<Rightarrow> error + 'b) \<Rightarrow> error + 'b" where
  "andThen r f = (case r of Inl e \<Rightarrow> Inl e | Inr x \<Rightarrow> f x)"

definition evaluateCrossover ::
  "(string \<Rightarrow> real option) \<Rightarrow> settings \<Rightarrow> marketData \<Rightarrow> indicators \<Rightarrow> error + bool" where
  "evaluateCrossover parseFloat settings marketData indicators =
     (let direction = st_direction settings
      in andThen (getSourceValue parseFloat (st_source1Type settings) (st_source1 settings) marketData indicators)
        (\<lambda>value1.
      andThen (getSourceValue parseFloat (st_source2Type settings) (st_source2 settings) marketData indicators)
        (\<lambda>value2.
      andThen (getPreviousSourceValue parseFloat (st_source1Type settings) (st_source1 settings) marketData indicators)
        (\<lambda>prevValue1.
      andThen (getPreviousSourceValue parseFloat (st_source2Type settings) (st_source2 settings) marketData indicators)
        (\<lambda>prevValue2.
         if value1 = Undefined \<or> value2 = Undefined \<or> prevValue1 = Undefined \<or> prevValue2 = Undefined
         then Inr False
         else if direction = Some ''above'' \<or> direction = Some ''bullish''
         then Inr (jle prevValue1 prevValue2 \<and> jgt value1 value2)
         else if direction = Some ''below'' \<or> direction = Some ''bearish''
         then Inr (jge prevValue1 prevValue2 \<and> jlt value1 value2)
         else if direction = Some ''any''
         then Inr ((jle prevValue1 prevValue2 \<and> jgt value1 value2)
                 \<or> (jge prevValue1 prevValue2 \<and> jlt value1 value2))
         else Inr False)))))"

definition evaluateThreshold ::
  "(string \<Rightarrow> real option) \<Rightarrow> settings \<Rightarrow> marketData \<Rightarrow> indicators \<Rightarrow> error + bool" where
  "evaluateThreshold parseFloat settings marketData indicators =
     (let operator = st_operator settings
      in andThen (getSourceValue parseFloat (st_sourceType settings) (st_source settings) marketData indicators)
        (\<lambda>sourceValue.
         if sourceValue = Undefined then Inr False
         else
           (let threshold = (case st_value settings of None \<Rightarrow> Undefined | Some v \<Rightarrow> Num v)
            in if operator = Some ''greater_than'' \<or> operator = Some ''>''
               then Inr (jgt sourceValue threshold)
               else if operator = Some ''less_than'' \<or> operator = Some ''<''
               then Inr (jlt sourceValue threshold)
               else if operator = Some ''equals'' \<or> operator = Some ''=='' \<or> operator = Some ''===''
               then Inr (jeq sourceValue threshold)
               else if operator = Some ''greater_than_equals'' \<or> operator = Some ''>=''
               then Inr (jge sourceValue threshold)
               else if operator = Some ''less_than_equals'' \<or> operator = Some ''<=''
               then Inr (jle sourceValue threshold)
               else Inr False)))"

text \<open>
  \<open>evaluatePriceAction\<close>. In the doji test a zero range gives \<open>NaN\<close> or an infinity in the
  program, and the comparison is then false. The two lookback loops stop at the first
  \<open>i\<close> beyond the history, so they test \<open>i\<close> from \<open>2\<close> to the smaller of \<open>lookbackPeriod + 1\<close>
  and the length.
\<close>

definition evaluatePriceAction :: "settings \<Rightarrow> marketData \<Rightarrow> indicators \<Rightarrow> bool" where
  "evaluatePriceAction settings marketData indicators =
     (let patternType = st_patternType settings;
          lookbackPeriod = defaultTo (st_lookbackPeriod settings) 1
      in case lookupSymbol marketData (st_symbol settings) of
           None \<Rightarrow> False
         | Some symbolData \<Rightarrow>
            (case md_history symbolData of
               None \<Rightarrow> False
             | Some history \<Rightarrow>
                 if length history < 2 then False
                 else
                   (let current = history ! (length history - 1);
                        previous = history ! (length history - 2)
                    in if patternType = Some ''bullish_candle'' then c_close current > c_open current
                       else if patternType = Some ''bearish_candle'' then c_close current < c_open current
                       else if patternType = Some ''doji'' then
                         (let bodySize = \<bar>c_close current - c_open current\<bar>;
                              totalRange = c_high current - c_low current
                          in totalRange \<noteq> 0 \<and> bodySize / totalRange < 0.1)
                       else if patternType = Some ''hammer'' then
                         (if c_close current \<le> c_open current then False
                          else
                            (let lowerWick = min (c_open current) (c_close current) - c_low current;
                                 hammerBody = \<bar>c_close current - c_open current\<bar>;
                                 upperWick = c_high current - max (c_open current) (c_close current)
                             in lowerWick > 2 * hammerBody \<and> upperWick < hammerBody))
                       else if patternType = Some ''engulfing_bullish'' then
                         (c_close current > c_open current \<and> c_close previous < c_open previous
                          \<and> c_open current < c_close previous \<and> c_close current > c_open previous)
                       else if patternType = Some ''engulfing_bearish'' then
                         (c_close current < c_open current \<and> c_close previous > c_open previous
                          \<and> c_open current > c_close previous \<and> c_close current < c_open previous)
                       else if patternType = Some ''higher_high'' then
                         list_all (\<lambda>i. \<not> c_high current \<le> c_high (history ! (length history - i)))
                           [2 ..< min (lookbackPeriod + 1) (length history) + 1]
                       else if patternType = Some ''lower_low'' then
                         list_all (\<lambda>i. \<not> c_low current \<ge> c_low (history ! (length history - i)))
                           [2 ..< min (lookbackPeriod + 1) (length history) + 1]
                       else if patternType = Some ''higher_close'' then c_close current > c_close previous
                       else if patternType = Some ''lower_close'' then c_close current < c_close previous
                       else False)))"

definition evaluateCondition ::
  "(string \<Rightarrow> real option) \<Rightarrow> block \<Rightarrow> marketData \<Rightarrow> indicators \<Rightarrow> error + bool" where
  "evaluateCondition parseFloat block marketData indicators =
     (let subtype = b_subtype block; settings = b_settings block
      in if subtype = ''crossover'' then evaluateCrossover parseFloat settings marketData indicators
         else if subtype = ''threshold'' then evaluateThreshold parseFloat settings marketData indicators
         else if subtype = ''price_action'' then Inr (evaluatePriceAction settings marketData indicators)
         else Inl (UnknownCondition subtype))"

section \<open>Paper trading service\<close>

text \<open>
  The session and what it holds. A message of \<open>session.errors\<close> is kept as its kind and
  the values the text is built from. A transaction's \<open>profitLoss\<close> is present on sells only.
\<close>

record position =
  p_symbol :: string
  p_quantity :: real
  p_averageCost :: real
  p_currentPrice :: real
  p_openTime :: time
  p_lastUpdated :: time

record transaction =
  t_time :: time
  t_type :: string
  t_symbol :: string
  t_quantity :: real
  t_price :: real
  t_total :: real
  t_profitLoss :: "real option"

record metrics =
  m_totalPnL :: real
  m_percentReturn :: real
  m_totalTrades :: nat
  m_winningTrades :: nat
  m_losingTrades :: nat
  m_winRate :: real

datatype message =
    InvalidPrice string string real
  | InsufficientFunds real string real
  | NoPositionFound string
  | InsufficientShares real string real
  | Caught error

record sessionError =
  e_time :: time
  e_message :: message

record strategy =
  sy_user :: string
  sy_symbols :: "string list option"
  sy_blocks :: "block list"

record sessionSettings =
  ss_symbols :: "string list"
  ss_timePeriod :: string
  ss_autoRun :: bool
  ss_riskPerTrade :: real

record session =
  s_id :: string
  s_userId :: string
  s_strategyId :: string
  s_strategy :: strategy
  s_status :: string
  s_startTime :: time
  s_endTime :: "time option"
  s_initialCapital :: real
  s_currentCapital :: real
  s_cashBalance :: real
  s_positions :: "position list"
  s_transactions :: "transaction list"
  s_metrics :: metrics
  s_settings :: sessionSettings
  s_lastUpdated :: time
  s_errors :: "sessionError list"

text \<open>The in-memory \<open>Map\<close> of sessions, keyed by session id.\<close>

type_synonym store = "string \<Rightarrow> session option"

record options =
  o_initialCapital :: "real option"
  o_symbols :: "string list option"
  o_timePeriod :: "string option"
  o_autoRun :: "bool option"
  o_riskPerTrade :: "real option"

text \<open>The decimal text of a number, for the session id.\<close>

definition digit :: "nat \<Rightarrow> char" where
  "digit d = ''0123456789'' ! d"

function showNat :: "nat \<Rightarrow> string" where
  "showNat n = (if n < 10 then [digit n] else showNat (n div 10) @ [digit (n mod 10)])"
  by pat_completeness auto
termination
  by (relation "measure id") auto

text \<open>
  \<open>createSession\<close>. \<open>Strategy.findById\<close> belongs to the database layer; what it found is
  the argument \<open>found\<close>.
\<close>

definition createSession ::
  "time \<Rightarrow> store \<Rightarrow> string \<Rightarrow> string \<Rightarrow> strategy option \<Rightarrow> options \<Rightarrow> error + store \<times> session" where
  "createSession now sessions userId strategyId found options =
     (case found of
        None \<Rightarrow> Inl StrategyNotFound
      | Some strategy \<Rightarrow>
          if sy_user strategy \<noteq> userId then Inl StrategyNotAuthorized
          else
            (let sessionId = userId @ ''-'' @ strategyId @ ''-'' @ showNat now;
                 session =
                   \<lparr> s_id = sessionId, s_userId = userId, s_strategyId = strategyId,
                     s_strategy = strategy, s_status = ''active'', s_startTime = now,
                     s_endTime = None,
                     s_initialCapital = orReal (o_initialCapital options) 10000,
                     s_currentCapital = orReal (o_initialCapital options) 10000,
                     s_cashBalance = orReal (o_initialCapital options) 10000,
                     s_positions = [], s_transactions = [],
                     s_metrics = \<lparr> m_totalPnL = 0, m_percentReturn = 0, m_totalTrades = 0,
                                    m_winningTrades = 0, m_losingTrades = 0, m_winRate = 0 \<rparr>,
                     s_settings =
                       \<lparr> ss_symbols =
                           (case o_symbols options of
                              Some symbols \<Rightarrow> symbols
                            | None \<Rightarrow> (case sy_symbols strategy of
                                          Some symbols \<Rightarrow> symbols
                                        | None \<Rightarrow> [''SPY''])),
                         ss_timePeriod =
                           (case o_timePeriod options of
                              None \<Rightarrow> ''1d''
                            | Some t \<Rightarrow> if t = [] then ''1d'' else t),
                         ss_autoRun = (case o_autoRun options of None \<Rightarrow> False | Some b \<Rightarrow> b),
                         ss_riskPerTrade = orReal (o_riskPerTrade options) 0.02 \<rparr>,
                     s_lastUpdated = now, s_errors = [] \<rparr>
             in Inr (sessions(sessionId \<mapsto> session), session)))"

definition getSession :: "store \<Rightarrow> string \<Rightarrow> string \<Rightarrow> error + session" where
  "getSession sessions sessionId userId =
     (case sessions sessionId of
        None \<Rightarrow> Inl SessionNotFound
      | Some session \<Rightarrow>
          if s_userId session \<noteq> userId then Inl (NotAuthorized ''access'')
          else Inr session)"

text \<open>
  \<open>processStrategy\<close>: the pass over the indicator blocks, then the pass over the condition
  blocks, where a true condition fires every action block. Whatever is thrown on the
  way is caught and the result is then empty.
\<close>

fun indicatorPass :: "block list \<Rightarrow> marketData \<Rightarrow> indicators \<Rightarrow> error + indicators" where
  "indicatorPass [] marketData indicators = Inr indicators"
| "indicatorPass (block # rest) marketData indicators =
     (if b_type block = ''indicator'' then
        (case applyIndicator block marketData of
           Inl e \<Rightarrow> Inl e
         | Inr indicatorResult \<Rightarrow>
             indicatorPass rest marketData (indicators(keyOf (b_id block) \<mapsto> indicatorResult)))
      else indicatorPass rest marketData indicators)"

fun conditionPass ::
  "(string \<Rightarrow> real option) \<Rightarrow> time \<Rightarrow> block list \<Rightarrow> block list \<Rightarrow> marketData \<Rightarrow> indicators
     \<Rightarrow> signal list \<Rightarrow> error + signal list" where
  "conditionPass parseFloat now blocks [] marketData indicators signals = Inr signals"
| "conditionPass parseFloat now blocks (block # rest) marketData indicators signals =
     (if b_type block = ''condition'' then
        (case evaluateCondition parseFloat block marketData indicators of
           Inl e \<Rightarrow> Inl e
         | Inr conditionResult \<Rightarrow>
             if conditionResult then
               (let actions = filter (\<lambda>b. b_type b = ''action'') blocks
                in conditionPass parseFloat now blocks rest marketData indicators
                     (signals @ List.map_filter (\<lambda>actionBlock.
                        executeAction now actionBlock marketData indicators) actions))
             else conditionPass parseFloat now blocks rest marketData indicators signals)
      else conditionPass parseFloat now blocks rest marketData indicators signals)"

definition processStrategy ::
  "(string \<Rightarrow> real option) \<Rightarrow> time \<Rightarrow> strategy \<Rightarrow> marketData \<Rightarrow> signal list \<times> indicators" where
  "processStrategy parseFloat now strategy marketData =
     (case indicatorPass (sy_blocks strategy) marketData Map.empty of
        Inl e \<Rightarrow> ([], Map.empty)
      | Inr indicators \<Rightarrow>
          (case conditionPass parseFloat now (sy_blocks strategy) (sy_blocks strategy)
                  marketData indicators [] of
             Inl e \<Rightarrow> ([], Map.empty)
           | Inr signals \<Rightarrow> (signals, indicators)))"

text \<open>
  \<open>executeSignals\<close>. \<open>executeSignal\<close> is the body of its loop, for one signal; \<open>continue\<close>
  is the early result. \<open>findIndex\<close> is the array method: the index of the first match.
  An existing position is changed in place. When \<open>totalShares\<close> is \<open>0\<close> the program
  stores \<open>NaN\<close> or an infinity as the average cost; the quotient of the model means nothing
  there.
\<close>

fun findIndex :: "('a \<Rightarrow> bool) \<Rightarrow> 'a list \<Rightarrow> nat option" where
  "findIndex P [] = None"
| "findIndex P (x # xs) =
     (if P x then Some 0 else (case findIndex P xs of None \<Rightarrow> None | Some i \<Rightarrow> Some (Suc i)))"

definition removeAt :: "nat \<Rightarrow> 'a list \<Rightarrow> 'a list" where
  "removeAt i xs = take i xs @ drop (Suc i) xs"

definition pushError :: "time \<Rightarrow> message \<Rightarrow> session \<Rightarrow> session" where
  "pushError now m session =
     session\<lparr>s_errors := s_errors session @ [\<lparr> e_time = now, e_message = m \<rparr>]\<rparr>"

text \<open>\<open>price || marketData[symbol]?.price || 0\<close>.\<close>

definition executionPriceOf :: "signal \<Rightarrow> marketData \<Rightarrow> real" where
  "executionPriceOf sg marketData =
     (case sg_price sg of
        Some p \<Rightarrow> if p \<noteq> 0 then p
                  else (case map_of marketData (sg_symbol sg) of
                          None \<Rightarrow> 0
                        | Some d \<Rightarrow> orReal (md_price d) 0)
      | None \<Rightarrow> (case map_of marketData (sg_symbol sg) of
                   None \<Rightarrow> 0
                 | Some d \<Rightarrow> orReal (md_price d) 0))"

text \<open>The quantity of the trade: the signal's, or the one the risk amount buys.\<close>

definition tradeQuantityOf :: "session \<Rightarrow> signal \<Rightarrow> real \<Rightarrow> real" where
  "tradeQuantityOf session sg executionPrice =
     (if truthyReal (sg_quantity sg) then defaultTo (sg_quantity sg) 0
      else
        (let riskAmount =
               s_cashBalance session
                 * (if truthyReal (sg_riskLevel sg) then defaultTo (sg_riskLevel sg) 0
                    else ss_riskPerTrade (s_settings session))
         in of_int \<lfloor>riskAmount / executionPrice\<rfloor>))"

definition executeSignal :: "time \<Rightarrow> session \<Rightarrow> signal \<Rightarrow> marketData \<Rightarrow> session" where
  "executeSignal now session sg marketData =
     (let symbol = sg_symbol sg;
          action = sg_action sg;
          executionPrice = executionPriceOf sg marketData
      in if executionPrice \<le> 0
         then pushError now (InvalidPrice action symbol executionPrice) session
         else
           (let tradeQuantity = tradeQuantityOf session sg executionPrice
            in if action = ''buy'' \<or> action = ''long'' then
                 (let cost = executionPrice * tradeQuantity
                  in if cost > s_cashBalance session
                     then pushError now (InsufficientFunds tradeQuantity symbol executionPrice) session
                     else
                       (let positions =
                              (case findIndex (\<lambda>p. p_symbol p = symbol) (s_positions session) of
                                 Some i \<Rightarrow>
                                   (let existingPosition = s_positions session ! i;
                                        totalShares = p_quantity existingPosition + tradeQuantity;
                                        totalCost =
                                          p_averageCost existingPosition * p_quantity existingPosition
                                            + executionPrice * tradeQuantity
                                    in (s_positions session)
                                         [i := existingPosition
                                            \<lparr> p_averageCost := totalCost / totalShares,
                                              p_quantity := totalShares,
                                              p_lastUpdated := now \<rparr>])
                               | None \<Rightarrow>
                                   s_positions session
                                     @ [\<lparr> p_symbol = symbol, p_quantity = tradeQuantity,
                                          p_averageCost = executionPrice,
                                          p_currentPrice = executionPrice,
                                          p_openTime = now, p_lastUpdated = now \<rparr>])
                        in session
                             \<lparr> s_positions := positions,
                               s_cashBalance := s_cashBalance session - cost,
                               s_transactions := s_transactions session
                                 @ [\<lparr> t_time = now, t_type = ''buy'', t_symbol = symbol,
                                      t_quantity = tradeQuantity, t_price = executionPrice,
                                      t_total = cost, t_profitLoss = None \<rparr>] \<rparr>))
               else if action = ''sell'' \<or> action = ''short'' then
                 (case findIndex (\<lambda>p. p_symbol p = symbol) (s_positions session) of
                    None \<Rightarrow> pushError now (NoPositionFound symbol) session
                  | Some positionIndex \<Rightarrow>
                      (let position = s_positions session ! positionIndex
                       in if p_quantity position < tradeQuantity
                          then pushError now
                                 (InsufficientShares tradeQuantity symbol (p_quantity position)) session
                          else
                            (let saleValue = executionPrice * tradeQuantity;
                                 profitLoss = (executionPrice - p_averageCost position) * tradeQuantity;
                                 quantity = p_quantity position - tradeQuantity;
                                 positions =
                                   (if quantity \<le> 0
                                    then removeAt positionIndex (s_positions session)
                                    else (s_positions session)
                                           [positionIndex := position
                                              \<lparr> p_quantity := quantity, p_lastUpdated := now \<rparr>])
                             in session
                                  \<lparr> s_positions := positions,
                                    s_cashBalance := s_cashBalance session + saleValue,
                                    s_transactions := s_transactions session
                                      @ [\<lparr> t_time = now, t_type = ''sell'', t_symbol = symbol,
                                           t_quantity = tradeQuantity, t_price = executionPrice,
                                           t_total = saleValue,
                                           t_profitLoss = Some profitLoss \<rparr>] \<rparr>)))
               else session))"

fun executeSignals :: "time \<Rightarrow> session \<Rightarrow> signal list \<Rightarrow> marketData \<Rightarrow> session" where
  "executeSignals now session [] marketData = session"
| "executeSignals now session (sg # rest) marketData =
     executeSignals now (executeSignal now session sg marketData) rest marketData"

definition updatePositions :: "time \<Rightarrow> session \<Rightarrow> marketData \<Rightarrow> session" where
  "updatePositions now session marketData =
     session\<lparr>s_positions :=
       map (\<lambda>position.
              case marketPrice marketData (p_symbol position) of
                None \<Rightarrow> position
              | Some price \<Rightarrow> position\<lparr>p_currentPrice := price, p_lastUpdated := now\<rparr>)
           (s_positions session)\<rparr>"

text \<open>
  \<open>updateMetrics\<close>. A session that \<open>createSession\<close> made has an initial capital that is not
  \<open>0\<close>, the divisor of the percent return.
\<close>

definition updateMetrics :: "session \<Rightarrow> session" where
  "updateMetrics session =
     (let portfolioValue =
            foldl (\<lambda>value position. value + p_currentPrice position * p_quantity position)
              (s_cashBalance session) (s_positions session);
          totalPnL = portfolioValue - s_initialCapital session;
          percentReturn = totalPnL / s_initialCapital session * 100;
          completedTrades = filter (\<lambda>t. t_type t = ''sell'') (s_transactions session);
          winningTrades =
            filter (\<lambda>t. case t_profitLoss t of None \<Rightarrow> False | Some pl \<Rightarrow> pl > 0) completedTrades;
          losingTrades =
            filter (\<lambda>t. case t_profitLoss t of None \<Rightarrow> False | Some pl \<Rightarrow> pl \<le> 0) completedTrades
      in session
           \<lparr> s_currentCapital := portfolioValue,
             s_metrics :=
               \<lparr> m_totalPnL = totalPnL, m_percentReturn = percentReturn,
                 m_totalTrades = length completedTrades,
                 m_winningTrades = length winningTrades,
                 m_losingTrades = length losingTrades,
                 m_winRate =
                   (if length completedTrades > 0
                    then real (length winningTrades) / real (length completedTrades) * 100
                    else 0) \<rparr> \<rparr>)"

text \<open>
  \<open>updateSession\<close>. Nothing in its \<open>try\<close> block throws on the typed data of the model
  (\<open>processStrategy\<close> catches its own errors), so its \<open>catch\<close> branch has no counterpart.
  The function takes no user id and never reads \<open>session.status\<close>.
\<close>

definition updateSession ::
  "(string \<Rightarrow> real option) \<Rightarrow> time \<Rightarrow> store \<Rightarrow> string \<Rightarrow> marketData \<Rightarrow> error + store \<times> session" where
  "updateSession parseFloat now sessions sessionId marketData =
     (case sessions sessionId of
        None \<Rightarrow> Inl SessionNotFound
      | Some session \<Rightarrow>
          (let (signals, indicators) = processStrategy parseFloat now (s_strategy session) marketData;
               session1 = (if length signals > 0
                           then executeSignals now session signals marketData
                           else session);
               session2 = updatePositions now session1 marketData;
               session3 = updateMetrics session2;
               session4 = session3\<lparr>s_lastUpdated := now\<rparr>
           in Inr (sessions(sessionId \<mapsto> session4), session4)))"

definition stopSession :: "time \<Rightarrow> store \<Rightarrow> string \<Rightarrow> string \<Rightarrow> error + store \<times> session" where
  "stopSession now sessions sessionId userId =
     (case sessions sessionId of
        None \<Rightarrow> Inl SessionNotFound
      | Some session \<Rightarrow>
          if s_userId session \<noteq> userId then Inl (NotAuthorized ''stop'')
          else
            (let session' = session\<lparr>s_status := ''stopped'', s_endTime := Some now\<rparr>
             in Inr (sessions(sessionId \<mapsto> session'), session')))"

definition deleteSession :: "store \<Rightarrow> string \<Rightarrow> string \<Rightarrow> error + store \<times> bool" where
  "deleteSession sessions sessionId userId =
     (case sessions sessionId of
        None \<Rightarrow> Inr (sessions, False)
      | Some session \<Rightarrow>
          if s_userId session \<noteq> userId then Inl (NotAuthorized ''delete'')
          else Inr (sessions(sessionId := None), True))"

section \<open>Paper trading controller\<close>

text \<open>
  The request handlers of the update, stop and delete routes, the operations that are
  given the caller's user id (\<open>req.user.id\<close>). Each answers a failure with status 400 and
  the error it caught. \<open>marketService.getMarketData\<close> is an argument; \<open>None\<close> is a fetch that
  failed, which the update handler skips.
\<close>

definition setKey :: "string \<Rightarrow> symbolData \<Rightarrow> marketData \<Rightarrow> marketData" where
  "setKey k v md =
     (if k \<in> fst ` set md then map (\<lambda>(k', v'). if k' = k then (k', v) else (k', v')) md
      else md @ [(k, v)])"

fun collectMarketData ::
  "(string \<Rightarrow> string \<Rightarrow> symbolData option) \<Rightarrow> string \<Rightarrow> string list \<Rightarrow> marketData \<Rightarrow> marketData" where
  "collectMarketData getMarketData timePeriod [] marketData = marketData"
| "collectMarketData getMarketData timePeriod (symbol # rest) marketData =
     (case getMarketData symbol timePeriod of
        None \<Rightarrow> collectMarketData getMarketData timePeriod rest marketData
      | Some d \<Rightarrow> collectMarketData getMarketData timePeriod rest (setKey symbol d marketData))"

datatype failure = Failure nat error

definition updateSessionHandler ::
  "(string \<Rightarrow> real option) \<Rightarrow> (string \<Rightarrow> string \<Rightarrow> symbolData option) \<Rightarrow> time \<Rightarrow> store
     \<Rightarrow> string \<Rightarrow> string \<Rightarrow> failure + store \<times> session" where
  "updateSessionHandler parseFloat getMarketData now sessions sessionId userId =
     (case getSession sessions sessionId userId of
        Inl e \<Rightarrow> Inl (Failure 400 e)
      | Inr session \<Rightarrow>
          (let symbols = ss_symbols (s_settings session);
               marketData = collectMarketData getMarketData
                              (ss_timePeriod (s_settings session)) symbols []
           in case updateSession parseFloat now sessions sessionId marketData of
                Inl e \<Rightarrow> Inl (Failure 400 e)
              | Inr r \<Rightarrow> Inr r))"

definition stopSessionHandler ::
  "time \<Rightarrow> store \<Rightarrow> string \<Rightarrow> string \<Rightarrow> failure + store \<times> session" where
  "stopSessionHandler now sessions sessionId userId =
     (case stopSession now sessions sessionId userId of
        Inl e \<Rightarrow> Inl (Failure 400 e)
      | Inr r \<Rightarrow> Inr r)"

definition deleteSessionHandler :: "store \<Rightarrow> string \<Rightarrow> string \<Rightarrow> failure + store \<times> string" where
  "deleteSessionHandler sessions sessionId userId =
     (case deleteSession sessions sessionId userId of
        Inl e \<Rightarrow> Inl (Failure 400 e)
      | Inr (sessions', success) \<Rightarrow>
          if \<not> success then Inl (Failure 400 SessionNotFound)
          else Inr (sessions', sessionId))"

text \<open>Two calls of \<open>stopSession\<close> in a row, the second on the store the first left.\<close>

definition stopTwice ::
  "time \<Rightarrow> time \<Rightarrow> store \<Rightarrow> string \<Rightarrow> string \<Rightarrow> error + session \<times> session" where
  "stopTwice t1 t2 sessions sessionId userId =
     andThen (stopSession t1 sessions sessionId userId)
       (\<lambda>(sessions1, first).
          andThen (stopSession t2 sessions1 sessionId userId)
            (\<lambda>(sessions2, second). Inr (first, second)))"





text \<open>
  The claim's words: the arithmetic mean of the window of \<open>period\<close> samples that starts at
  index \<open>j\<close> (and so ends at index \<open>j + period - 1\<close>).
\<close>

definition windowMean :: "real list \<Rightarrow> nat \<Rightarrow> nat \<Rightarrow> real" where
  "windowMean prices period j = (\<Sum>k<period. prices ! (j + k)) / real period"

section \<open>Example data\<close>

text \<open>
  A candle that closes at \<open>x\<close>, with every other field different from the close, and the
  price data made of a list of closes.
\<close>

definition candleAt :: "real \<Rightarrow> candle" where
  "candleAt x = \<lparr> c_time = '''', c_open = x + 10, c_high = 2 * x + 20, c_low = x - 10,
                   c_close = x, c_volume = 1000 \<rparr>"

definition closesData :: "real list \<Rightarrow> symbolData" where
  "closesData xs = \<lparr> md_price = None, md_timestamp = '''', md_history = Some (map candleAt xs) \<rparr>"

text \<open>
  A session holding the given cash and positions, the market data of one symbol, and the
  signals of the examples.
\<close>

definition demoStrategy :: strategy where
  "demoStrategy =
     \<lparr> sy_user = ''ann'', sy_symbols = Some [''SPY''],
       sy_blocks =
         [\<lparr> b_id = None, b_type = ''condition'', b_subtype = ''price_action'',
            b_settings = noSettings\<lparr>st_symbol := Some ''SPY'',
                                     st_patternType := Some ''bullish_candle''\<rparr> \<rparr>,
          \<lparr> b_id = None, b_type = ''action'', b_subtype = ''buy'',
            b_settings = noSettings\<lparr>st_symbol := Some ''SPY''\<rparr> \<rparr>] \<rparr>"

definition demoSession :: "real \<Rightarrow> position list \<Rightarrow> session" where
  "demoSession cash positions =
     \<lparr> s_id = ''ann-s1-0'', s_userId = ''ann'', s_strategyId = ''s1'',
       s_strategy = demoStrategy, s_status = ''active'', s_startTime = 0, s_endTime = None,
       s_initialCapital = 10000, s_currentCapital = 10000, s_cashBalance = cash,
       s_positions = positions, s_transactions = [],
       s_metrics = \<lparr> m_totalPnL = 0, m_percentReturn = 0, m_totalTrades = 0,
                      m_winningTrades = 0, m_losingTrades = 0, m_winRate = 0 \<rparr>,
       s_settings = \<lparr> ss_symbols = [''SPY''], ss_timePeriod = ''1d'', ss_autoRun = False,
                       ss_riskPerTrade = 0.02 \<rparr>,
       s_lastUpdated = 0, s_errors = [] \<rparr>"

definition spyMarket :: "real \<Rightarrow> marketData" where
  "spyMarket price =
     [(''SPY'',
       \<lparr> md_price = Some price, md_timestamp = '''',
         md_history =
           Some [\<lparr> c_time = ''2024-01-01T00:00:00.000Z'', c_open = price - 2, c_high = price,
                   c_low = price - 2, c_close = price - 1, c_volume = 0 \<rparr>,
                 \<lparr> c_time = ''2024-01-02T00:00:00.000Z'', c_open = price - 1, c_high = price,
                   c_low = price - 1, c_close = price, c_volume = 0 \<rparr>] \<rparr>)]"

definition buySignal :: "real \<Rightarrow> real option \<Rightarrow> signal" where
  "buySignal price quantity =
     \<lparr> sg_action = ''buy'', sg_symbol = ''SPY'', sg_orderType = Some ''market'',
       sg_price = Some price, sg_quantity = quantity, sg_riskLevel = Some 0.02,
       sg_percentage = None, sg_type = None, sg_value = Undefined, sg_trailingType = None,
       sg_trailingValue = None, sg_timestamp = 0 \<rparr>"

definition spyPosition :: "real \<Rightarrow> real \<Rightarrow> real \<Rightarrow> time \<Rightarrow> time \<Rightarrow> position" where
  "spyPosition quantity averageCost currentPrice openTime lastUpdated =
     \<lparr> p_symbol = ''SPY'', p_quantity = quantity, p_averageCost = averageCost,
       p_currentPrice = currentPrice, p_openTime = openTime, p_lastUpdated = lastUpdated \<rparr>"

text \<open>
  The store holding that session alone, the options of a call that gives none, a
  \<open>parseFloat\<close> that recognises no numeral and a market data service that answers with the
  example market.
\<close>

definition demoStore :: store where
  "demoStore = Map.empty(''ann-s1-0'' \<mapsto> demoSession 10000 [])"

definition noOptions :: options where
  "noOptions = \<lparr> o_initialCapital = None, o_symbols = None, o_timePeriod = None,
                  o_autoRun = None, o_riskPerTrade = None \<rparr>"

definition noParse :: "string \<Rightarrow> real option" where
  "noParse text = None"

definition spyService :: "real \<Rightarrow> string \<Rightarrow> string \<Rightarrow> symbolData option" where
  "spyService price symbol timePeriod = map_of (spyMarket price) symbol"

text \<open>The example session after it was stopped at the given time.\<close>

definition stoppedSession :: "time \<Rightarrow> session" where
  "stoppedSession t = (demoSession 10000 [])\<lparr>s_status := ''stopped'', s_endTime := Some t\<rparr>"





section \<open>Simple moving average\<close>

lemma foldl_plus_sum_list: "foldl (+) (a::real) xs = a + sum_list xs"
  by (induction xs arbitrary: a) simp_all

lemma sum_list_window:
  assumes "j + p \<le> length (xs::real list)"
  shows "sum_list (take p (drop j xs)) = (\<Sum>k<p. xs ! (j + k))"
proof -
  have len: "length (take p (drop j xs)) = p"
    using assms by simp
  have "sum_list (take p (drop j xs)) = (\<Sum>k = 0..<p. take p (drop j xs) ! k)"
    using sum_list_sum_nth [of "take p (drop j xs)"] len by simp
  also have "\<dots> = (\<Sum>k = 0..<p. xs ! (j + k))"
    using assms by (intro sum.cong) simp_all
  finally show ?thesis
    by (simp add: lessThan_atLeast0)
qed

lemma shift_upt: "[p ..< p + m] = map (\<lambda>j. j + p) [0 ..< m]"
  by (simp add: map_add_upt add.commute)

lemma sma_loop_windows:
  assumes "0 < period" "period \<le> length prices"
  shows "map (\<lambda>i. foldl (+) 0 (slice prices (i + 1 - period) (i + 1)) / real period)
           [period - 1 ..< length prices]
         = map (windowMean prices period) [0 ..< length prices - period + 1]"
proof -
  let ?n = "length prices"
  let ?m = "?n - period + 1"
  have total: "period - 1 + ?m = ?n"
    using assms by simp
  have range: "[period - 1 ..< ?n] = map (\<lambda>j. j + (period - 1)) [0 ..< ?m]"
    using shift_upt [of "period - 1" ?m] unfolding total .
  have step: "foldl (+) 0 (slice prices (j + (period - 1) + 1 - period) (j + (period - 1) + 1))
                / real period = windowMean prices period j"
    if "j < ?m" for j
  proof -
    have "j + period \<le> ?n" using that assms by simp
    moreover have "j + (period - 1) + 1 - period = j" "j + (period - 1) + 1 - j = period"
      using assms by simp_all
    ultimately show ?thesis
      by (simp add: slice_def windowMean_def foldl_plus_sum_list sum_list_window)
  qed
  show ?thesis
    unfolding range map_map
  proof (rule map_cong [OF refl])
    fix j
    assume "j \<in> set [0 ..< ?m]"
    then have "j < ?m" by auto
    from step [OF this]
    show "((\<lambda>i. foldl (+) 0 (slice prices (i + 1 - period) (i + 1)) / real period)
            \<circ> (\<lambda>j. j + (period - 1))) j = windowMean prices period j"
      by (simp only: o_apply)
  qed
qed

text \<open>
  C7. Let \<open>period\<close> be the period setting, or 14 when it is absent or \<open>0\<close>, and \<open>prices\<close> the
  samples of the chosen price field of the history (the closes when no field is chosen),
  \<open>n\<close> of them. For \<open>n \<ge> period\<close> the result's history is the list of the means of the
  trailing windows of \<open>period\<close> samples, one for each window end from index \<open>period - 1\<close> on,
  that is \<open>n - period + 1\<close> values, and the reported value is the last of them; for
  \<open>n < period\<close> the computation fails with the not-enough-data error.
\<close>

theorem calculateSMA_window_means:
  assumes "md_history priceData = Some hist"
    and "period = (case st_period settings of None \<Rightarrow> 14 | Some p \<Rightarrow> if p = 0 then 14 else p)"
    and "prices =
           (case st_priceField settings of
              None \<Rightarrow> map c_close hist
            | Some Open \<Rightarrow> map c_open hist
            | Some High \<Rightarrow> map c_high hist
            | Some Low \<Rightarrow> map c_low hist
            | Some Close \<Rightarrow> map c_close hist
            | Some Volume \<Rightarrow> map c_volume hist)"
  shows "(length prices < period \<longrightarrow>
            calculateSMA priceData settings = Inl (NotEnoughData ''SMA'' period))
       \<and> (period \<le> length prices \<longrightarrow>
            (\<exists>r. calculateSMA priceData settings = Inr r
               \<and> sr_history r = map (windowMean prices period) [0 ..< length prices - period + 1]
               \<and> length (sr_history r) = length prices - period + 1
               \<and> sr_value r = Some (last (sr_history r))
               \<and> sr_value r = Some (windowMean prices period (length prices - period))))"
proof -
  have eff: "period = orNat (st_period settings) 14"
    using assms(2) by (simp add: orNat_def)
  have chosen: "prices = map (\<lambda>c. candleValue c (orField (st_priceField settings) Close)) hist"
    using assms(3) by (simp add: orField_def split: option.splits priceField.splits)
  have pos: "0 < period"
    using assms(2) by (simp split: option.splits)
  show ?thesis
  proof (intro conjI impI)
    assume "length prices < period"
    then show "calculateSMA priceData settings = Inl (NotEnoughData ''SMA'' period)"
      using assms(1) eff chosen by (simp add: calculateSMA_def Let_def)
  next
    assume le: "period \<le> length prices"
    let ?h = "map (windowMean prices period) [0 ..< length prices - period + 1]"
    have loop: "map (\<lambda>i. foldl (+) 0 (slice prices (i + 1 - period) (i + 1)) / real period)
                  [period - 1 ..< length prices] = ?h"
      using sma_loop_windows [OF pos le] .
    have ne: "?h \<noteq> []" by simp
    have lst: "last ?h = windowMean prices period (length prices - period)"
      by (simp add: last_map)
    have run: "calculateSMA priceData settings =
                 Inr \<lparr> sr_value = lastValue ?h, sr_history = ?h, sr_period = period,
                       sr_timestamp = md_timestamp priceData,
                       sr_overbought = None, sr_oversold = None \<rparr>"
      using assms(1) eff chosen le loop by (simp add: calculateSMA_def Let_def)
    show "\<exists>r. calculateSMA priceData settings = Inr r
               \<and> sr_history r = ?h
               \<and> length (sr_history r) = length prices - period + 1
               \<and> sr_value r = Some (last (sr_history r))
               \<and> sr_value r = Some (windowMean prices period (length prices - period))"
      unfolding run using ne lst by (simp add: lastValue_def)
  qed
qed

text \<open>
  The example of the specification: period 3 over the closes 1, 2, 3, 4, 5 gives the means
  2, 3, 4 and reports 4. On the same candles the highs are 22, 24, 26, 28, 30, and with the
  field \<open>high\<close> chosen the means are 24, 26, 28. Over two closes period 3 fails, and so does
  the default period 14.
\<close>

lemma window_means_of_five:
  "map (windowMean [a, b, c, d, e] 3) [0 ..< length [a, b, c, d, e] - 3 + 1]
     = [(a + b + c) / 3, (b + c + d) / 3, (c + d + e) / 3]"
proof -
  have "windowMean [a, b, c, d, e] 3 0 = (a + b + c) / 3"
    and "windowMean [a, b, c, d, e] 3 (Suc 0) = (b + c + d) / 3"
    and "windowMean [a, b, c, d, e] 3 (Suc (Suc 0)) = (c + d + e) / 3"
    by (simp_all add: windowMean_def lessThan_nat_numeral lessThan_Suc)
  then show ?thesis by (simp add: upt_rec)
qed

theorem calculateSMA_window_means_witness:
  "(\<exists>r. calculateSMA (closesData [1, 2, 3, 4, 5]) (noSettings\<lparr>st_period := Some 3\<rparr>) = Inr r
        \<and> sr_history r = [2, 3, 4] \<and> sr_value r = Some 4)
   \<and> (\<exists>r. calculateSMA (closesData [1, 2, 3, 4, 5])
             (noSettings\<lparr>st_period := Some 3, st_priceField := Some High\<rparr>) = Inr r
        \<and> sr_history r = [24, 26, 28] \<and> sr_value r = Some 28)
   \<and> calculateSMA (closesData [1, 2]) (noSettings\<lparr>st_period := Some 3\<rparr>)
        = Inl (NotEnoughData ''SMA'' 3)
   \<and> calculateSMA (closesData [1, 2]) noSettings = Inl (NotEnoughData ''SMA'' 14)"
proof -
  let ?st = "noSettings\<lparr>st_period := Some 3\<rparr>"
  let ?sh = "noSettings\<lparr>st_period := Some 3, st_priceField := Some High\<rparr>"
  let ?five = "closesData [1, 2, 3, 4, 5]"
  let ?two = "closesData [1, 2]"
  have h5: "md_history ?five = Some (map candleAt [1, 2, 3, 4, 5])"
    and h2: "md_history ?two = Some (map candleAt [1, 2])"
    by (simp_all add: closesData_def)
  have p3: "(3::nat) = (case st_period ?st of None \<Rightarrow> 14 | Some p \<Rightarrow> if p = 0 then 14 else p)"
    and p3h: "(3::nat) = (case st_period ?sh of None \<Rightarrow> 14 | Some p \<Rightarrow> if p = 0 then 14 else p)"
    and p14: "(14::nat) = (case st_period noSettings of None \<Rightarrow> 14 | Some p \<Rightarrow> if p = 0 then 14 else p)"
    by (simp_all add: noSettings_def)
  have closes5: "[1, 2, 3, 4, 5] =
           (case st_priceField ?st of
              None \<Rightarrow> map c_close (map candleAt [1, 2, 3, 4, 5])
            | Some Open \<Rightarrow> map c_open (map candleAt [1, 2, 3, 4, 5])
            | Some High \<Rightarrow> map c_high (map candleAt [1, 2, 3, 4, 5])
            | Some Low \<Rightarrow> map c_low (map candleAt [1, 2, 3, 4, 5])
            | Some Close \<Rightarrow> map c_close (map candleAt [1, 2, 3, 4, 5])
            | Some Volume \<Rightarrow> map c_volume (map candleAt [1, 2, 3, 4, 5]))"
    by (simp add: noSettings_def candleAt_def)
  have highs5: "[22, 24, 26, 28, 30] =
           (case st_priceField ?sh of
              None \<Rightarrow> map c_close (map candleAt [1, 2, 3, 4, 5])
            | Some Open \<Rightarrow> map c_open (map candleAt [1, 2, 3, 4, 5])
            | Some High \<Rightarrow> map c_high (map candleAt [1, 2, 3, 4, 5])
            | Some Low \<Rightarrow> map c_low (map candleAt [1, 2, 3, 4, 5])
            | Some Close \<Rightarrow> map c_close (map candleAt [1, 2, 3, 4, 5])
            | Some Volume \<Rightarrow> map c_volume (map candleAt [1, 2, 3, 4, 5]))"
    by (simp add: candleAt_def)
  have closes2: "[1, 2] =
           (case st_priceField ?st of
              None \<Rightarrow> map c_close (map candleAt [1, 2])
            | Some Open \<Rightarrow> map c_open (map candleAt [1, 2])
            | Some High \<Rightarrow> map c_high (map candleAt [1, 2])
            | Some Low \<Rightarrow> map c_low (map candleAt [1, 2])
            | Some Close \<Rightarrow> map c_close (map candleAt [1, 2])
            | Some Volume \<Rightarrow> map c_volume (map candleAt [1, 2]))"
    and closes2d: "[1, 2] =
           (case st_priceField noSettings of
              None \<Rightarrow> map c_close (map candleAt [1, 2])
            | Some Open \<Rightarrow> map c_open (map candleAt [1, 2])
            | Some High \<Rightarrow> map c_high (map candleAt [1, 2])
            | Some Low \<Rightarrow> map c_low (map candleAt [1, 2])
            | Some Close \<Rightarrow> map c_close (map candleAt [1, 2])
            | Some Volume \<Rightarrow> map c_volume (map candleAt [1, 2]))"
    by (simp_all add: noSettings_def candleAt_def)
  from calculateSMA_window_means [OF h5 p3 closes5]
  obtain r where r: "calculateSMA ?five ?st = Inr r"
      "sr_history r = map (windowMean [1, 2, 3, 4, 5] 3) [0 ..< length [1, 2, 3, 4, 5::real] - 3 + 1]"
      "sr_value r = Some (last (sr_history r))"
    by auto
  have one: "\<exists>r. calculateSMA ?five ?st = Inr r \<and> sr_history r = [2, 3, 4] \<and> sr_value r = Some 4"
    using r unfolding window_means_of_five by simp
  from calculateSMA_window_means [OF h5 p3h highs5]
  obtain rh where rh: "calculateSMA ?five ?sh = Inr rh"
      "sr_history rh = map (windowMean [22, 24, 26, 28, 30] 3) [0 ..< length [22, 24, 26, 28, 30::real] - 3 + 1]"
      "sr_value rh = Some (last (sr_history rh))"
    by auto
  have high: "\<exists>r. calculateSMA ?five ?sh = Inr r \<and> sr_history r = [24, 26, 28] \<and> sr_value r = Some 28"
    using rh unfolding window_means_of_five by simp
  from calculateSMA_window_means [OF h2 p3 closes2]
  have two: "calculateSMA ?two ?st = Inl (NotEnoughData ''SMA'' 3)"
    by simp
  from calculateSMA_window_means [OF h2 p14 closes2d]
  have dflt: "calculateSMA ?two noSettings = Inl (NotEnoughData ''SMA'' 14)"
    by simp
  from one high two dflt show ?thesis by blast
qed

section \<open>Signal execution\<close>

lemma findIndex_None: "findIndex P xs = None \<longleftrightarrow> (\<forall>x \<in> set xs. \<not> P x)"
  by (induction xs) (auto split: option.splits)

lemma findIndex_Some:
  "findIndex P xs = Some i \<longleftrightarrow> i < length xs \<and> P (xs ! i) \<and> (\<forall>j < i. \<not> P (xs ! j))"
proof (induction xs arbitrary: i)
  case Nil
  then show ?case by simp
next
  case (Cons x xs)
  show ?case
  proof (cases "P x")
    case True
    then show ?thesis by (cases i) auto
  next
    case False
    show ?thesis
    proof (cases i)
      case 0
      with False show ?thesis by (auto split: option.splits)
    next
      case (Suc k)
      have "(\<forall>j < Suc k. \<not> P ((x # xs) ! j)) \<longleftrightarrow> (\<forall>j < k. \<not> P (xs ! j))"
        using False by (auto simp: less_Suc_eq_0_disj)
      with False Suc Cons.IH [of k] show ?thesis
        by (auto split: option.splits)
    qed
  qed
qed

text \<open>
  C2. A buy signal with execution price \<open>p > 0\<close> and resolved quantity \<open>q\<close> whose cost
  \<open>p * q\<close> does not exceed the cash balance: the cash balance goes down by exactly
  \<open>p * q\<close>, exactly one buy transaction with total \<open>p * q\<close> is appended and no error is
  recorded. When no position holds the symbol, a position with quantity \<open>q\<close> and average
  cost \<open>p\<close> is appended. When one does (the first with that symbol, of quantity \<open>q0\<close> and
  average cost \<open>c0\<close>, and \<open>q0 + q\<close> is not zero), its average cost becomes
  \<open>(c0 * q0 + p * q) / (q0 + q)\<close> and its quantity \<open>q0 + q\<close>.
\<close>

theorem buy_updates_position:
  assumes buy: "sg_action sg = ''buy'' \<or> sg_action sg = ''long''"
    and p: "p = executionPriceOf sg marketData" and pos: "0 < p"
    and q: "q = tradeQuantityOf session sg p"
    and cost: "p * q \<le> s_cashBalance session"
    and s': "session' = executeSignal now session sg marketData"
  shows "s_cashBalance session' = s_cashBalance session - p * q
       \<and> s_transactions session'
           = s_transactions session
             @ [\<lparr> t_time = now, t_type = ''buy'', t_symbol = sg_symbol sg, t_quantity = q,
                  t_price = p, t_total = p * q, t_profitLoss = None \<rparr>]
       \<and> s_errors session' = s_errors session
       \<and> ((\<forall>x \<in> set (s_positions session). p_symbol x \<noteq> sg_symbol sg) \<longrightarrow>
            s_positions session'
              = s_positions session
                @ [\<lparr> p_symbol = sg_symbol sg, p_quantity = q, p_averageCost = p,
                     p_currentPrice = p, p_openTime = now, p_lastUpdated = now \<rparr>])
       \<and> (\<forall>i q0 c0.
             i < length (s_positions session)
             \<and> p_symbol (s_positions session ! i) = sg_symbol sg
             \<and> (\<forall>j < i. p_symbol (s_positions session ! j) \<noteq> sg_symbol sg)
             \<and> q0 = p_quantity (s_positions session ! i)
             \<and> c0 = p_averageCost (s_positions session ! i)
             \<and> q0 + q \<noteq> 0 \<longrightarrow>
               s_positions session'
                 = (s_positions session)
                     [i := (s_positions session ! i)
                        \<lparr> p_averageCost := (c0 * q0 + p * q) / (q0 + q),
                          p_quantity := q0 + q, p_lastUpdated := now \<rparr>])"
proof -
  have np: "\<not> p \<le> 0" and nc: "\<not> p * q > s_cashBalance session"
    using pos cost by simp_all
  have none: "findIndex (\<lambda>x. p_symbol x = sg_symbol sg) (s_positions session) = None"
    if "\<forall>x \<in> set (s_positions session). p_symbol x \<noteq> sg_symbol sg"
    using that by (simp add: findIndex_None)
  have some: "findIndex (\<lambda>x. p_symbol x = sg_symbol sg) (s_positions session) = Some i"
    if "i < length (s_positions session)" "p_symbol (s_positions session ! i) = sg_symbol sg"
       "\<forall>j < i. p_symbol (s_positions session ! j) \<noteq> sg_symbol sg" for i
    using that by (simp add: findIndex_Some)
  have run: "session' =
      session
        \<lparr> s_positions :=
            (case findIndex (\<lambda>x. p_symbol x = sg_symbol sg) (s_positions session) of
               Some i \<Rightarrow>
                 (s_positions session)
                   [i := (s_positions session ! i)
                      \<lparr> p_averageCost :=
                          (p_averageCost (s_positions session ! i) * p_quantity (s_positions session ! i)
                             + p * q) / (p_quantity (s_positions session ! i) + q),
                        p_quantity := p_quantity (s_positions session ! i) + q,
                        p_lastUpdated := now \<rparr>]
             | None \<Rightarrow>
                 s_positions session
                   @ [\<lparr> p_symbol = sg_symbol sg, p_quantity = q, p_averageCost = p,
                        p_currentPrice = p, p_openTime = now, p_lastUpdated = now \<rparr>]),
          s_cashBalance := s_cashBalance session - p * q,
          s_transactions := s_transactions session
            @ [\<lparr> t_time = now, t_type = ''buy'', t_symbol = sg_symbol sg, t_quantity = q,
                 t_price = p, t_total = p * q, t_profitLoss = None \<rparr>] \<rparr>"
    unfolding s' using buy p [symmetric] q [symmetric] np nc
    by (auto simp add: executeSignal_def Let_def cong: option.case_cong)
  show ?thesis
    unfolding run using none some by (auto simp: mult.commute)
qed

text \<open>
  The example of the specification: with cash 10000, buying 10 shares at 100 leaves cash
  9000 and a position of 10 at average cost 100; buying 5 more at 120 gives the average
  cost \<open>(10 * 100 + 5 * 120) / 15\<close>.
\<close>

theorem buy_updates_position_witness:
  "executeSignal 1 (demoSession 10000 []) (buySignal 100 (Some 10)) []
     = (demoSession 9000 [spyPosition 10 100 100 1 1])
         \<lparr>s_transactions :=
            [\<lparr> t_time = 1, t_type = ''buy'', t_symbol = ''SPY'', t_quantity = 10,
               t_price = 100, t_total = 1000, t_profitLoss = None \<rparr>]\<rparr>
   \<and> s_cashBalance (executeSignal 2 (demoSession 9000 [spyPosition 10 100 100 1 1])
                       (buySignal 120 (Some 5)) []) = 8400
   \<and> s_positions (executeSignal 2 (demoSession 9000 [spyPosition 10 100 100 1 1])
                     (buySignal 120 (Some 5)) [])
       = [spyPosition 15 ((10 * 100 + 5 * 120) / 15) 100 1 2]"
proof -
  let ?s0 = "demoSession 10000 []"
  let ?s1 = "demoSession 9000 [spyPosition 10 100 100 1 1]"
  have p1: "(100::real) = executionPriceOf (buySignal 100 (Some 10)) []"
    and q1: "(10::real) = tradeQuantityOf ?s0 (buySignal 100 (Some 10)) 100"
    and c1: "(100::real) * 10 \<le> s_cashBalance ?s0"
    and a1: "sg_action (buySignal 100 (Some 10)) = ''buy'' \<or> sg_action (buySignal 100 (Some 10)) = ''long''"
    by (simp_all add: executionPriceOf_def tradeQuantityOf_def buySignal_def demoSession_def
        truthyReal_def defaultTo_def)
  have first: "executeSignal 1 ?s0 (buySignal 100 (Some 10)) []
     = ?s1 \<lparr>s_transactions :=
            [\<lparr> t_time = 1, t_type = ''buy'', t_symbol = ''SPY'', t_quantity = 10,
               t_price = 100, t_total = 1000, t_profitLoss = None \<rparr>]\<rparr>"
    using buy_updates_position [OF a1 p1 _ q1 c1 refl, of 1]
    by (simp add: demoSession_def buySignal_def spyPosition_def executeSignal_def Let_def
        executionPriceOf_def tradeQuantityOf_def truthyReal_def defaultTo_def)
  have p2: "(120::real) = executionPriceOf (buySignal 120 (Some 5)) []"
    and q2: "(5::real) = tradeQuantityOf ?s1 (buySignal 120 (Some 5)) 120"
    and c2: "(120::real) * 5 \<le> s_cashBalance ?s1"
    and a2: "sg_action (buySignal 120 (Some 5)) = ''buy'' \<or> sg_action (buySignal 120 (Some 5)) = ''long''"
    by (simp_all add: executionPriceOf_def tradeQuantityOf_def buySignal_def demoSession_def
        truthyReal_def defaultTo_def)
  have idx: "0 < length (s_positions ?s1)
             \<and> p_symbol (s_positions ?s1 ! 0) = sg_symbol (buySignal 120 (Some 5))
             \<and> (\<forall>j < 0. p_symbol (s_positions ?s1 ! j) \<noteq> sg_symbol (buySignal 120 (Some 5)))
             \<and> (10::real) = p_quantity (s_positions ?s1 ! 0)
             \<and> (100::real) = p_averageCost (s_positions ?s1 ! 0)
             \<and> (10::real) + 5 \<noteq> 0"
    by (simp add: demoSession_def spyPosition_def buySignal_def)
  from buy_updates_position [OF a2 p2 _ q2 c2 refl, of 2]
  have second: "s_cashBalance (executeSignal 2 ?s1 (buySignal 120 (Some 5)) []) = s_cashBalance ?s1 - 120 * 5"
    and third: "\<forall>i q0 c0.
             i < length (s_positions ?s1)
             \<and> p_symbol (s_positions ?s1 ! i) = sg_symbol (buySignal 120 (Some 5))
             \<and> (\<forall>j < i. p_symbol (s_positions ?s1 ! j) \<noteq> sg_symbol (buySignal 120 (Some 5)))
             \<and> q0 = p_quantity (s_positions ?s1 ! i)
             \<and> c0 = p_averageCost (s_positions ?s1 ! i)
             \<and> q0 + 5 \<noteq> 0 \<longrightarrow>
               s_positions (executeSignal 2 ?s1 (buySignal 120 (Some 5)) [])
                 = (s_positions ?s1)
                     [i := (s_positions ?s1 ! i)
                        \<lparr> p_averageCost := (c0 * q0 + 120 * 5) / (q0 + 5),
                          p_quantity := q0 + 5, p_lastUpdated := 2 \<rparr>]"
    by simp_all
  from third [rule_format, of 0 10 100, OF idx]
  have pos: "s_positions (executeSignal 2 ?s1 (buySignal 120 (Some 5)) [])
       = [spyPosition 15 ((10 * 100 + 5 * 120) / 15) 100 1 2]"
    by (simp add: demoSession_def spyPosition_def)
  from second have cash: "s_cashBalance (executeSignal 2 ?s1 (buySignal 120 (Some 5)) []) = 8400"
    by (simp add: demoSession_def)
  from first cash pos show ?thesis by simp
qed



lemma executeStopLoss_action:
  "executeStopLoss t st md inds = Some sg \<Longrightarrow> sg_action sg = ''stop_loss''"
  by (auto simp: executeStopLoss_def Let_def split: option.splits)

lemma executeTakeProfit_action:
  "executeTakeProfit t st md inds = Some sg \<Longrightarrow> sg_action sg = ''take_profit''"
  by (auto simp: executeTakeProfit_def Let_def split: option.splits)

text \<open>
  C10. A signal with a resolved execution price above \<open>0\<close> whose action is none of
  \<open>buy\<close>, \<open>long\<close>, \<open>sell\<close>, \<open>short\<close>, in particular a signal that \<open>executeStopLoss\<close> or
  \<open>executeTakeProfit\<close> returned, leaves the session as it was: no position, cash,
  transaction or error entry changes, and the cycle goes on with the next signal.
\<close>

theorem other_actions_are_dropped:
  assumes price: "0 < executionPriceOf sg marketData"
    and other: "sg_action sg \<notin> {''buy'', ''long'', ''sell'', ''short''}
                \<or> executeStopLoss t st marketData inds = Some sg
                \<or> executeTakeProfit t st marketData inds = Some sg"
  shows "executeSignal now session sg marketData = session
       \<and> executeSignals now session (sg # rest) marketData
           = executeSignals now session rest marketData"
proof -
  from other have act: "sg_action sg \<notin> {''buy'', ''long'', ''sell'', ''short''}"
    using executeStopLoss_action [of t st marketData inds sg]
      executeTakeProfit_action [of t st marketData inds sg]
    by auto
  have one: "executeSignal now session sg marketData = session"
    using price act by (simp add: executeSignal_def Let_def)
  then show ?thesis by simp
qed

text \<open>
  A stop-loss block on a market where the symbol trades at 100: the signal it emits is
  dropped by the execution.
\<close>

theorem other_actions_are_dropped_witness:
  "executeStopLoss 5 (noSettings\<lparr>st_value := Some 90\<rparr>) (spyMarket 100) Map.empty
     = Some \<lparr> sg_action = ''stop_loss'', sg_symbol = ''SPY'', sg_orderType = None,
              sg_price = Some 100, sg_quantity = None, sg_riskLevel = None,
              sg_percentage = None, sg_type = Some ''price'', sg_value = Num 90,
              sg_trailingType = Some ''none'', sg_trailingValue = Some 0, sg_timestamp = 5 \<rparr>
   \<and> executeSignal 6 (demoSession 10000 [])
        \<lparr> sg_action = ''stop_loss'', sg_symbol = ''SPY'', sg_orderType = None,
          sg_price = Some 100, sg_quantity = None, sg_riskLevel = None,
          sg_percentage = None, sg_type = Some ''price'', sg_value = Num 90,
          sg_trailingType = Some ''none'', sg_trailingValue = Some 0, sg_timestamp = 5 \<rparr>
        (spyMarket 100)
     = demoSession 10000 []"
proof -
  let ?sg = "\<lparr> sg_action = ''stop_loss'', sg_symbol = ''SPY'', sg_orderType = None,
          sg_price = Some 100, sg_quantity = None, sg_riskLevel = None,
          sg_percentage = None, sg_type = Some ''price'', sg_value = Num 90,
          sg_trailingType = Some ''none'', sg_trailingValue = Some 0, sg_timestamp = 5 \<rparr>"
  have emit: "executeStopLoss 5 (noSettings\<lparr>st_value := Some 90\<rparr>) (spyMarket 100) Map.empty = Some ?sg"
    by (simp add: executeStopLoss_def noSettings_def spyMarket_def marketPrice_def defaultTo_def
        parsedValue_def Let_def)
  have price: "0 < executionPriceOf ?sg (spyMarket 100)"
    by (simp add: executionPriceOf_def)
  from other_actions_are_dropped [OF price disjI2 [OF disjI1 [OF emit]], of 6 "demoSession 10000 []"]
  show ?thesis using emit by simp
qed

section \<open>A position of quantity zero\<close>

lemma showNat_0: "showNat 0 = ''0''"
  by (simp add: digit_def)

lemma create_demo:
  "createSession 0 Map.empty ''ann'' ''s1'' (Some demoStrategy) noOptions
     = Inr (demoStore, demoSession 10000 [])"
  by (simp add: createSession_def demoStore_def demoSession_def noOptions_def orReal_def
      showNat_0 digit_def demoStrategy_def Let_def)

lemma update_demo:
  assumes "s_strategy session = demoStrategy" "sessions sid = Some session" "price \<noteq> 0"
  shows "updateSession noParse now sessions sid (spyMarket price)
     = (let s4 = (updateMetrics (updatePositions now
                    (executeSignal now session ((buySignal price None)\<lparr>sg_timestamp := now\<rparr>) (spyMarket price))
                    (spyMarket price)))\<lparr>s_lastUpdated := now\<rparr>
        in Inr (sessions(sid \<mapsto> s4), s4))"
proof -
  have sig: "processStrategy noParse now demoStrategy (spyMarket price)
     = ([(buySignal price None)\<lparr>sg_timestamp := now\<rparr>], Map.empty)"
    using assms(3)
    by (simp add: processStrategy_def demoStrategy_def evaluateCondition_def
      evaluatePriceAction_def spyMarket_def lookupSymbol_def noSettings_def defaultTo_def
      executeAction_def executeBuyOrder_def marketPrice_def truthyReal_def parsedQuantity_def
      buySignal_def List.map_filter_def Let_def)
  show ?thesis
    using assms(1,2) by (simp add: updateSession_def sig Let_def)
qed

text \<open>
  C4. The invariant that every position held has a quantity above \<open>0\<close> is broken by the
  buy branch. A session created with the default options holds 10000 in cash and risks
  0.02 of it per trade; its strategy buys without a quantity. On an update with the
  symbol at 500 the quantity resolves to \<open>\<lfloor>200 / 500\<rfloor> = 0\<close>, the cost \<open>0\<close> passes the
  funds test, and a position of quantity \<open>0\<close> is appended to \<open>session.positions\<close>.
\<close>

theorem update_creates_zero_quantity_position:
  "createSession 0 Map.empty ''ann'' ''s1'' (Some demoStrategy) noOptions
     = Inr (demoStore, demoSession 10000 [])
   \<and> updateSession noParse 1 demoStore ''ann-s1-0'' (spyMarket 500)
     = Inr (demoStore(''ann-s1-0'' \<mapsto>
              (demoSession 10000 [spyPosition 0 500 500 1 1])
                \<lparr>s_transactions :=
                   [\<lparr> t_time = 1, t_type = ''buy'', t_symbol = ''SPY'', t_quantity = 0,
                      t_price = 500, t_total = 0, t_profitLoss = None \<rparr>],
                 s_lastUpdated := 1\<rparr>),
            (demoSession 10000 [spyPosition 0 500 500 1 1])
              \<lparr>s_transactions :=
                 [\<lparr> t_time = 1, t_type = ''buy'', t_symbol = ''SPY'', t_quantity = 0,
                    t_price = 500, t_total = 0, t_profitLoss = None \<rparr>],
               s_lastUpdated := 1\<rparr>)"
proof -
  have "s_strategy (demoSession 10000 []) = demoStrategy"
    and "demoStore ''ann-s1-0'' = Some (demoSession 10000 [])"
    by (simp_all add: demoSession_def demoStore_def)
  from update_demo [of "demoSession 10000 []" demoStore "''ann-s1-0''" 500 1, OF this]
  have "updateSession noParse 1 demoStore ''ann-s1-0'' (spyMarket 500)
     = Inr (demoStore(''ann-s1-0'' \<mapsto>
              (demoSession 10000 [spyPosition 0 500 500 1 1])
                \<lparr>s_transactions :=
                   [\<lparr> t_time = 1, t_type = ''buy'', t_symbol = ''SPY'', t_quantity = 0,
                      t_price = 500, t_total = 0, t_profitLoss = None \<rparr>],
                 s_lastUpdated := 1\<rparr>),
            (demoSession 10000 [spyPosition 0 500 500 1 1])
              \<lparr>s_transactions :=
                 [\<lparr> t_time = 1, t_type = ''buy'', t_symbol = ''SPY'', t_quantity = 0,
                    t_price = 500, t_total = 0, t_profitLoss = None \<rparr>],
               s_lastUpdated := 1\<rparr>)"
    by (simp add: demoSession_def buySignal_def spyPosition_def executeSignal_def Let_def
      executionPriceOf_def tradeQuantityOf_def truthyReal_def defaultTo_def
      updatePositions_def updateMetrics_def marketPrice_def spyMarket_def)
  with create_demo show ?thesis by simp
qed

section \<open>Sessions\<close>

text \<open>
  C1. \<open>updateSession\<close> does not read the status. The example session is stopped at time 1;
  the update at time 2, with the symbol at 100, still runs the strategy and executes its
  buy signal: the stopped session pays 200 for a position of 2 and records the buy.
\<close>

theorem stopped_session_still_trades:
  "stopSession 1 demoStore ''ann-s1-0'' ''ann''
     = Inr (demoStore(''ann-s1-0'' \<mapsto> stoppedSession 1), stoppedSession 1)
   \<and> updateSession noParse 2 (demoStore(''ann-s1-0'' \<mapsto> stoppedSession 1)) ''ann-s1-0'' (spyMarket 100)
     = Inr (demoStore(''ann-s1-0'' \<mapsto>
              (stoppedSession 1)
                \<lparr>s_cashBalance := 9800, s_positions := [spyPosition 2 100 100 2 2],
                 s_transactions :=
                   [\<lparr> t_time = 2, t_type = ''buy'', t_symbol = ''SPY'', t_quantity = 2,
                      t_price = 100, t_total = 200, t_profitLoss = None \<rparr>],
                 s_lastUpdated := 2\<rparr>),
            (stoppedSession 1)
              \<lparr>s_cashBalance := 9800, s_positions := [spyPosition 2 100 100 2 2],
               s_transactions :=
                 [\<lparr> t_time = 2, t_type = ''buy'', t_symbol = ''SPY'', t_quantity = 2,
                    t_price = 100, t_total = 200, t_profitLoss = None \<rparr>],
               s_lastUpdated := 2\<rparr>)"
proof -
  have stop: "stopSession 1 demoStore ''ann-s1-0'' ''ann''
     = Inr (demoStore(''ann-s1-0'' \<mapsto> stoppedSession 1), stoppedSession 1)"
    by (simp add: stopSession_def demoStore_def stoppedSession_def demoSession_def Let_def)
  have "s_strategy (stoppedSession 1) = demoStrategy"
    and "(demoStore(''ann-s1-0'' \<mapsto> stoppedSession 1)) ''ann-s1-0'' = Some (stoppedSession 1)"
    by (simp_all add: demoSession_def stoppedSession_def)
  from update_demo [of "stoppedSession 1" "demoStore(''ann-s1-0'' \<mapsto> stoppedSession 1)" "''ann-s1-0''" 100 2, OF this]
  have "updateSession noParse 2 (demoStore(''ann-s1-0'' \<mapsto> stoppedSession 1)) ''ann-s1-0'' (spyMarket 100)
     = Inr (demoStore(''ann-s1-0'' \<mapsto>
              (stoppedSession 1)
                \<lparr>s_cashBalance := 9800, s_positions := [spyPosition 2 100 100 2 2],
                 s_transactions :=
                   [\<lparr> t_time = 2, t_type = ''buy'', t_symbol = ''SPY'', t_quantity = 2,
                      t_price = 100, t_total = 200, t_profitLoss = None \<rparr>],
                 s_lastUpdated := 2\<rparr>),
            (stoppedSession 1)
              \<lparr>s_cashBalance := 9800, s_positions := [spyPosition 2 100 100 2 2],
               s_transactions :=
                 [\<lparr> t_time = 2, t_type = ''buy'', t_symbol = ''SPY'', t_quantity = 2,
                    t_price = 100, t_total = 200, t_profitLoss = None \<rparr>],
               s_lastUpdated := 2\<rparr>)"
    by (simp add: demoSession_def stoppedSession_def buySignal_def spyPosition_def executeSignal_def Let_def
      executionPriceOf_def tradeQuantityOf_def truthyReal_def defaultTo_def
      updatePositions_def updateMetrics_def marketPrice_def spyMarket_def)
  with stop show ?thesis by simp
qed

text \<open>
  C5. The operations that are given a caller's user id are the request handlers of the
  update, stop and delete routes; the service's \<open>updateSession\<close> has no such argument,
  and the update handler makes the ownership test by calling \<open>getSession\<close> first. For a
  session that exists and a caller who is not its owner each handler fails with the
  authorization error, as \<open>getSession\<close>, \<open>stopSession\<close> and \<open>deleteSession\<close> themselves do, and
  no new store is returned: the sessions are as they were.
\<close>

theorem only_owner_mutates:
  assumes "sessions sessionId = Some session" and "s_userId session \<noteq> userId"
  shows "updateSessionHandler parseFloat getMarketData now sessions sessionId userId
           = Inl (Failure 400 (NotAuthorized ''access''))
       \<and> stopSessionHandler now sessions sessionId userId
           = Inl (Failure 400 (NotAuthorized ''stop''))
       \<and> deleteSessionHandler sessions sessionId userId
           = Inl (Failure 400 (NotAuthorized ''delete''))
       \<and> getSession sessions sessionId userId = Inl (NotAuthorized ''access'')
       \<and> stopSession now sessions sessionId userId = Inl (NotAuthorized ''stop'')
       \<and> deleteSession sessions sessionId userId = Inl (NotAuthorized ''delete'')"
  using assms
  by (simp add: updateSessionHandler_def stopSessionHandler_def deleteSessionHandler_def
      getSession_def stopSession_def deleteSession_def)

text \<open>Another user asks to update, stop and delete the example session.\<close>

theorem only_owner_mutates_witness:
  "updateSessionHandler noParse (spyService 100) 5 demoStore ''ann-s1-0'' ''bob''
           = Inl (Failure 400 (NotAuthorized ''access''))
       \<and> stopSessionHandler 5 demoStore ''ann-s1-0'' ''bob''
           = Inl (Failure 400 (NotAuthorized ''stop''))
       \<and> deleteSessionHandler demoStore ''ann-s1-0'' ''bob''
           = Inl (Failure 400 (NotAuthorized ''delete''))"
proof -
  have a: "demoStore ''ann-s1-0'' = Some (demoSession 10000 [])"
    by (simp add: demoStore_def)
  have b: "s_userId (demoSession 10000 []) \<noteq> ''bob''"
    by (simp add: demoSession_def)
  from only_owner_mutates [where sessions = demoStore and session = "demoSession 10000 []"
      and parseFloat = noParse and getMarketData = "spyService 100" and now = 5, OF a b]
  show ?thesis by simp
qed

text \<open>
  C9. \<open>stopSession\<close> does not read the status either. Stopping the example session at
  time 10 and again at time 20 succeeds both times, and the second call overwrites the
  end time the first one set: it is 20 afterwards, not 10.
\<close>

theorem stop_twice_overwrites_endTime:
  "stopTwice 10 20 demoStore ''ann-s1-0'' ''ann'' = Inr (stoppedSession 10, stoppedSession 20)
   \<and> s_endTime (stoppedSession 10) = Some 10
   \<and> s_endTime (stoppedSession 20) = Some 20
   \<and> s_endTime (stoppedSession 20) \<noteq> s_endTime (stoppedSession 10)"
  by (simp add: stopTwice_def andThen_def stopSession_def demoStore_def stoppedSession_def
      demoSession_def Let_def)

section \<open>Crossover\<close>
















section \<open>Sell signals\<close>

text \<open>
  C6, as stated, fails twice: a percentage setting of 150 gives the fraction \<open>3 / 2\<close>,
  which is not within 0 to 1, and without a price for the symbol no signal is returned.
\<close>

theorem sell_percentage_counterexample:
  "executeSellOrder 1 (noSettings\<lparr>st_percentage := Some 150\<rparr>) (spyMarket 100) Map.empty
     = Some \<lparr> sg_action = ''sell'', sg_symbol = ''SPY'', sg_orderType = Some ''market'',
              sg_price = Some 100, sg_quantity = None, sg_riskLevel = None,
              sg_percentage = Some (3 / 2), sg_type = None, sg_value = Undefined,
              sg_trailingType = None, sg_trailingValue = None, sg_timestamp = 1 \<rparr>
   \<and> \<not> (3 / 2 \<le> (1::real))
   \<and> executeSellOrder 1 noSettings [] Map.empty = None"
  by (simp add: executeSellOrder_def noSettings_def spyMarket_def marketPrice_def defaultTo_def
      truthyReal_def truthyInt_def parsedQuantity_def Let_def)

text \<open>
  C6, amended. For a sell block without a quantity setting: when no execution price
  resolves, no signal is returned; when one does, the signal has no quantity and its
  percentage is the percentage setting divided by 100 (1 when the setting is absent), a
  fraction within 0 to 1 exactly when the setting is within 0 to 100. The share count is
  left to the execution, which resolves it from the cash balance and the session's risk
  per trade.
\<close>

theorem sell_signal_percentage:
  assumes noq: "st_quantity settings = None"
    and price: "resolved =
                  (if \<not> truthyReal (st_price settings)
                      \<or> defaultTo (st_orderType settings) ''market'' = ''market''
                   then marketPrice marketData (defaultTo (st_symbol settings) ''SPY'')
                   else st_price settings)"
    and pct: "percentage = defaultTo (st_percentage settings) 100"
  shows "(resolved = None \<longrightarrow> executeSellOrder now settings marketData indicators = None)
       \<and> (\<forall>p. resolved = Some p \<longrightarrow>
             (\<exists>sg. executeSellOrder now settings marketData indicators = Some sg
                \<and> sg_action sg = ''sell'' \<and> sg_price sg = Some p
                \<and> sg_quantity sg = None
                \<and> sg_percentage sg = Some (percentage / 100)
                \<and> ((0 \<le> percentage / 100 \<and> percentage / 100 \<le> 1)
                      \<longleftrightarrow> (0 \<le> percentage \<and> percentage \<le> 100))
                \<and> (st_percentage settings = None \<longrightarrow> sg_percentage sg = Some 1)
                \<and> (\<forall>session executionPrice.
                      0 < executionPrice \<longrightarrow>
                      tradeQuantityOf session sg executionPrice
                        = of_int \<lfloor>s_cashBalance session * ss_riskPerTrade (s_settings session)
                                    / executionPrice\<rfloor>)))"
  using noq
  by (auto simp add: executeSellOrder_def price pct Let_def parsedQuantity_def truthyInt_def
      tradeQuantityOf_def truthyReal_def defaultTo_def split: option.splits)

text \<open>A sell block with the percentage 50, and a sell block on a market without data.\<close>

theorem sell_signal_percentage_witness:
  "executeSellOrder 1 (noSettings\<lparr>st_percentage := Some 50\<rparr>) (spyMarket 100) Map.empty
     = Some \<lparr> sg_action = ''sell'', sg_symbol = ''SPY'', sg_orderType = Some ''market'',
              sg_price = Some 100, sg_quantity = None, sg_riskLevel = None,
              sg_percentage = Some (1 / 2), sg_type = None, sg_value = Undefined,
              sg_trailingType = None, sg_trailingValue = None, sg_timestamp = 1 \<rparr>
   \<and> executeSellOrder 1 noSettings [] Map.empty = None"
proof -
  let ?st = "noSettings\<lparr>st_percentage := Some 50\<rparr>"
  have q: "st_quantity ?st = None" and q0: "st_quantity noSettings = None"
    by (simp_all add: noSettings_def)
  have r: "Some 100 = (if \<not> truthyReal (st_price ?st)
                      \<or> defaultTo (st_orderType ?st) ''market'' = ''market''
                   then marketPrice (spyMarket 100) (defaultTo (st_symbol ?st) ''SPY'')
                   else st_price ?st)"
    by (simp add: noSettings_def spyMarket_def marketPrice_def defaultTo_def truthyReal_def)
  have r0: "None = (if \<not> truthyReal (st_price noSettings)
                      \<or> defaultTo (st_orderType noSettings) ''market'' = ''market''
                   then marketPrice [] (defaultTo (st_symbol noSettings) ''SPY'')
                   else st_price noSettings)"
    by (simp add: noSettings_def marketPrice_def defaultTo_def truthyReal_def)
  have p: "(50::real) = defaultTo (st_percentage ?st) 100"
    by (simp add: defaultTo_def)
  from sell_signal_percentage [OF q r p, where now = 1 and indicators = Map.empty]
  obtain sg where sg: "executeSellOrder 1 ?st (spyMarket 100) Map.empty = Some sg"
      "sg_percentage sg = Some (50 / 100)" "sg_quantity sg = None"
    by auto
  have one: "executeSellOrder 1 ?st (spyMarket 100) Map.empty
     = Some \<lparr> sg_action = ''sell'', sg_symbol = ''SPY'', sg_orderType = Some ''market'',
              sg_price = Some 100, sg_quantity = None, sg_riskLevel = None,
              sg_percentage = Some (1 / 2), sg_type = None, sg_value = Undefined,
              sg_trailingType = None, sg_trailingValue = None, sg_timestamp = 1 \<rparr>"
    using sg
    by (simp add: executeSellOrder_def noSettings_def spyMarket_def marketPrice_def defaultTo_def
      truthyReal_def truthyInt_def parsedQuantity_def Let_def)
  from sell_signal_percentage [OF q0 r0 refl, where now = 1 and indicators = Map.empty]
  have two: "executeSellOrder 1 noSettings [] Map.empty = None"
    by simp
  from one two show ?thesis by simp
qed

end
